theory Spec2Isabelle
  imports Main "HOL-Library.Word"
begin

section \<open>Strings\<close>

text \<open>
  A \<^verbatim>\<open>std::string\<close> or \<^verbatim>\<open>std::string_view\<close> is a \<^typ>\<open>string\<close>: a list of bytes that
  may hold any byte, the zero byte included. Positions are natural numbers, and
  \<^verbatim>\<open>std::string::npos\<close> is \<^term>\<open>None\<close>. The functions of this section are the members of
  \<^verbatim>\<open>std::string\<close> and of the C library that the module calls.
\<close>

type_synonym header_t = "string list"

type_synonym form_t = "(string \<times> string) list"

text \<open>\<^verbatim>\<open>s.c_str()\<close> as a C function reads it: the bytes before the first zero byte.\<close>

definition c_str :: "string \<Rightarrow> string" where
  "c_str s = takeWhile (\<lambda>c. c \<noteq> CHR 0x00) s"

text \<open>\<^verbatim>\<open>::tolower\<close> in the C locale: the 26 capital letters move, every other byte stays.\<close>

definition tolower :: "char \<Rightarrow> char" where
  "tolower c =
     (case map_of (zip ''ABCDEFGHIJKLMNOPQRSTUVWXYZ'' ''abcdefghijklmnopqrstuvwxyz'') c of
        None \<Rightarrow> c
      | Some l \<Rightarrow> l)"

definition starts_with :: "string \<Rightarrow> string \<Rightarrow> bool" where
  "starts_with s p = (take (length p) s = p)"

definition ends_with :: "string \<Rightarrow> string \<Rightarrow> bool" where
  "ends_with s p = (length p \<le> length s \<and> drop (length s - length p) s = p)"

text \<open>\<^verbatim>\<open>s.pop_back()\<close>, called by the module on non-empty strings only.\<close>

definition pop_back :: "string \<Rightarrow> string" where
  "pop_back s = butlast s"

text \<open>
  \<^verbatim>\<open>s.find(p, pos)\<close> is the least position at or after \<open>pos\<close> where \<open>p\<close> occurs in \<open>s\<close>;
  \<open>find_from p cs i\<close> searches the rest \<open>cs\<close> of the string that starts at position \<open>i\<close>.
\<close>

fun find_from :: "string \<Rightarrow> string \<Rightarrow> nat \<Rightarrow> nat option" where
  "find_from p [] i = (if p = [] then Some i else None)"
| "find_from p (c # cs) i =
     (if starts_with (c # cs) p then Some i else find_from p cs (Suc i))"

definition find_char :: "string \<Rightarrow> char \<Rightarrow> nat \<Rightarrow> nat option" where
  "find_char s c pos = find_from [c] (drop pos s) pos"

text \<open>\<^verbatim>\<open>s.rfind(p)\<close> is the greatest position where \<open>p\<close> occurs in \<open>s\<close>.\<close>

fun rfind_from :: "string \<Rightarrow> string \<Rightarrow> nat \<Rightarrow> nat option" where
  "rfind_from p [] i = (if p = [] then Some i else None)"
| "rfind_from p (c # cs) i =
     (case rfind_from p cs (Suc i) of
        Some j \<Rightarrow> Some j
      | None \<Rightarrow> if starts_with (c # cs) p then Some i else None)"

definition rfind :: "string \<Rightarrow> string \<Rightarrow> nat option" where
  "rfind s p = rfind_from p s 0"

text \<open>
  \<^verbatim>\<open>s.substr(pos, count)\<close>: at most \<open>count\<close> bytes from position \<open>pos\<close> on, all of the rest
  when \<open>count\<close> is \<^verbatim>\<open>npos\<close>. It throws \<^verbatim>\<open>std::out_of_range\<close> when \<open>pos\<close> is beyond the
  end of the string.
\<close>

datatype error = runtime_error string | out_of_range

definition substr :: "string \<Rightarrow> nat \<Rightarrow> nat option \<Rightarrow> error + string" where
  "substr s pos count =
     (if length s < pos then Inl out_of_range
      else Inr (case count of None \<Rightarrow> drop pos s | Some n \<Rightarrow> take n (drop pos s)))"

section \<open>The transfer engine\<close>

text \<open>
  libcurl is outside the repository. The module sees it through the options it sets on
  the easy handle, the outcome of \<^verbatim>\<open>curl_easy_perform\<close> and the callbacks that call makes.
  A handle is the map from the options set so far to their values. \<^verbatim>\<open>curl_easy_setopt\<close>
  stores one value; of the options below, libcurl changes a second one together with the
  one that is set in one case only: setting \<^verbatim>\<open>CURLOPT_MIMEPOST\<close> switches \<^verbatim>\<open>CURLOPT_NOBODY\<close>
  off (a multipart body implies that the response body is retrieved). With every other
  option the rest of the handle stays as it is.
\<close>

datatype CURLoption =
    CURLOPT_URL
  | CURLOPT_PROTOCOLS
  | CURLOPT_FOLLOWLOCATION
  | CURLOPT_FAILONERROR
  | CURLOPT_USERAGENT
  | CURLOPT_HTTPHEADER
  | CURLOPT_CUSTOMREQUEST
  | CURLOPT_POSTFIELDS
  | CURLOPT_MIMEPOST
  | CURLOPT_NOBODY
  | CURLOPT_WRITEFUNCTION
  | CURLOPT_WRITEDATA
  | CURLOPT_HEADERFUNCTION

text \<open>A protocol bit mask (\<^verbatim>\<open>CURLPROTO_HTTP | CURLPROTO_HTTPS\<close>) is the set of its bits.\<close>

datatype CURLPROTO =
    CURLPROTO_HTTP
  | CURLPROTO_HTTPS
  | CURLPROTO_FTP
  | CURLPROTO_FILE
  | CURLPROTO_other nat

datatype callback = write_user_data_fn | header_callback_fn

text \<open>
  The value of an option. A string option (\<open>Str\<close>) is copied by libcurl when it is set.
  \<open>Slist\<close> is the request header list the handle points to; libcurl keeps it as a pointer,
  and the module never frees an entry before the worker ends. The payload and the
  multipart body are kept as pointers too, to memory that the module releases:
  \<open>Postfields s\<close> is a payload pointer to a live string whose bytes up to the first zero
  byte are \<open>s\<close>, and \<open>Postfields_dangling\<close> is that pointer once the string has been
  destroyed; \<open>Mime parts\<close> is a multipart body with its parts, and \<open>Mime_freed\<close> is what the
  handle is left with once \<^verbatim>\<open>curl_mime_free\<close> has released that body: no parts. What
  a transfer reads through a dangling pointer is not defined; the engine is given the
  pointer and nothing of what the string held. \<open>Chunk_ptr\<close> is the address of the body
  buffer of the running request; every request sets it anew before its transfer.
\<close>

datatype optval =
    Long int
  | Str string
  | Protocols "CURLPROTO set"
  | Slist "string list"
  | Postfields string
  | Postfields_dangling
  | Mime "(string \<times> string) list"
  | Mime_freed
  | Callback callback
  | Chunk_ptr

type_synonym CURL = "CURLoption \<rightharpoonup> optval"

definition curl_easy_setopt :: "CURL \<Rightarrow> CURLoption \<Rightarrow> optval \<Rightarrow> CURL" where
  "curl_easy_setopt h opt v =
     (if opt = CURLOPT_MIMEPOST then h(CURLOPT_MIMEPOST \<mapsto> v, CURLOPT_NOBODY \<mapsto> Long 0)
      else h(opt \<mapsto> v))"

text \<open>
  The two ways in which the module releases memory that an option points to. The
  destructor of a \<^verbatim>\<open>std::string\<close> whose buffer was given to \<^verbatim>\<open>CURLOPT_POSTFIELDS\<close> leaves
  the option with a dangling pointer, and \<^verbatim>\<open>curl_mime_free\<close> on the body given to
  \<^verbatim>\<open>CURLOPT_MIMEPOST\<close> leaves the handle without parts.
\<close>

definition string_dtor :: "CURL \<Rightarrow> CURL" where
  "string_dtor h = h(CURLOPT_POSTFIELDS \<mapsto> Postfields_dangling)"

definition curl_mime_free :: "CURL \<Rightarrow> CURL" where
  "curl_mime_free h = h(CURLOPT_MIMEPOST \<mapsto> Mime_freed)"

datatype CURLcode =
    CURLE_OK
  | CURLE_UNSUPPORTED_PROTOCOL
  | CURLE_COULDNT_RESOLVE_HOST
  | CURLE_COULDNT_CONNECT
  | CURLE_HTTP_RETURNED_ERROR
  | CURLE_OPERATION_TIMEDOUT
  | CURLE_SSL_CONNECT_ERROR
  | CURLE_TOO_MANY_REDIRECTS
  | CURLE_other nat

datatype CURLUcode = CURLUE_OK | CURLUE_BAD_HANDLE | CURLUE_MALFORMED_INPUT | CURLUE_other nat

datatype CURLU_flag = CURLU_DEFAULT_SCHEME | CURLU_URLENCODE

text \<open>
  What one \<^verbatim>\<open>curl_easy_perform\<close> does, as the module sees it: the data it hands to the
  callbacks, in order, the code it returns, and what \<^verbatim>\<open>curl_easy_getinfo\<close> reports
  afterwards (\<open>effective_url\<close> is \<^term>\<open>None\<close> for a null pointer).
\<close>

datatype event = Header_line string | Body_chunk string

record transfer =
  events :: "event list"
  result :: CURLcode
  response_code :: int
  effective_url :: "string option"

text \<open>
  The environment of one call of the module: the URL parser (\<open>curl_url_set\<close> gives the
  code for an input and flags, \<open>curl_url_get\<close> the URL the handle then holds), the
  transfer a handle leads to, and which allocations succeed.
\<close>

record curl_env =
  curl_url_set :: "string \<Rightarrow> CURLU_flag set \<Rightarrow> CURLUcode"
  curl_url_get :: "string \<Rightarrow> CURLU_flag set \<Rightarrow> string"
  curl_easy_perform :: "CURL \<Rightarrow> transfer"
  malloc_ok :: "nat \<Rightarrow> bool"
  realloc_ok :: "nat \<Rightarrow> bool"

text \<open>\<^verbatim>\<open>curl_slist_append\<close> copies the C string to the end of the list.\<close>

definition curl_slist_append :: "string list \<Rightarrow> string \<Rightarrow> string list" where
  "curl_slist_append list s = list @ [s]"

section \<open>The per-thread context and the callbacks (url.cxx, lines 35 to 135)\<close>

definition curl_global_ctor :: "CURLcode \<Rightarrow> error + unit" where
  "curl_global_ctor init_result =
     (if init_result \<noteq> CURLE_OK
      then Inl (runtime_error ''curl_global::curl_global: curl_global_init failed'')
      else Inr ())"

record curl_thread_local =
  curl :: CURL
  header_chunk :: "string list"
  response_headers :: "string list"

text \<open>The constructor; \<open>easy_init\<close> is what \<^verbatim>\<open>curl_easy_init\<close> returned.\<close>

definition curl_thread_local_ctor :: "CURL option \<Rightarrow> error + curl_thread_local" where
  "curl_thread_local_ctor easy_init =
     (case easy_init of
        None \<Rightarrow> Inl (runtime_error ''curl_thread_local::curl_thread_local: curl_easy_init failed'')
      | Some h \<Rightarrow> Inr \<lparr>curl = h, header_chunk = [], response_headers = []\<rparr>)"

text \<open>
  The destructor: \<^verbatim>\<open>curl_slist_free_all(header_chunk)\<close>, then \<^verbatim>\<open>curl_easy_cleanup(curl)\<close>.
  The result lists the header entries it frees and the handle it closes.
\<close>

definition curl_thread_local_dtor :: "curl_thread_local \<Rightarrow> string list \<times> CURL" where
  "curl_thread_local_dtor ctx = (header_chunk ctx, curl ctx)"

text \<open>
  The body buffer. \<open>memory\<close> is the allocated block, \<open>size_ud\<close> the field \<^verbatim>\<open>size\<close>. The byte
  \<^verbatim>\<open>malloc(1)\<close> returns is indeterminate and is overwritten before it is read.
\<close>

record user_data =
  memory :: string
  size_ud :: nat

definition user_data_ctor :: "curl_env \<Rightarrow> error + user_data" where
  "user_data_ctor env =
     (if malloc_ok env 1 then Inr \<lparr>memory = [CHR 0x00], size_ud = 0\<rparr>
      else Inl (runtime_error ''user_data::user_data: malloc failed''))"

definition write_user_data ::
  "curl_env \<Rightarrow> string \<Rightarrow> nat \<Rightarrow> nat \<Rightarrow> user_data \<Rightarrow> error + (nat \<times> user_data)" where
  "write_user_data env contents size_arg nmemb mem =
     (let realsize = size_arg * nmemb in
      if \<not> realloc_ok env (size_ud mem + realsize + 1)
      then Inl (runtime_error ''write_user_data: realloc failed'')
      else Inr (realsize,
        \<lparr>memory = take (size_ud mem) (memory mem) @ take realsize contents @ [CHR 0x00],
         size_ud = size_ud mem + realsize\<rparr>))"

definition header_callback ::
  "string \<Rightarrow> nat \<Rightarrow> nat \<Rightarrow> string list \<Rightarrow> nat \<times> string list" where
  "header_callback buffer size_arg nitems hdrs =
     (let line = take nitems buffer in
      (size_arg * nitems,
       hdrs @ [if ends_with line [CHR 0x0D, CHR 0x0A] then pop_back (pop_back line) else line]))"

text \<open>
  The callbacks \<^verbatim>\<open>curl_easy_perform\<close> makes: libcurl calls both with \<^verbatim>\<open>size == 1\<close> and the
  number of bytes it delivers. An exception of the write callback ends the transfer.
\<close>

fun deliver ::
  "curl_env \<Rightarrow> event list \<Rightarrow> string list \<times> user_data \<Rightarrow> error + (string list \<times> user_data)" where
  "deliver env [] st = Inr st"
| "deliver env (Header_line l # es) (hdrs, chunk) =
     deliver env es (snd (header_callback l 1 (length l) hdrs), chunk)"
| "deliver env (Body_chunk b # es) (hdrs, chunk) =
     (case write_user_data env b 1 (length b) chunk of
        Inl e \<Rightarrow> Inl e
      | Inr (n, chunk') \<Rightarrow> deliver env es (hdrs, chunk'))"

section \<open>URL options (url.cxx, lines 137 to 166)\<close>

definition encode_url :: "curl_env \<Rightarrow> string \<Rightarrow> string" where
  "encode_url env url_arg =
     (let url_str = url_arg;
          flags = {CURLU_DEFAULT_SCHEME, CURLU_URLENCODE};
          curl_res = curl_url_set env (c_str url_str) flags
      in if curl_res = CURLUE_OK then curl_url_get env (c_str url_str) flags else url_str)"

definition set_url_options :: "curl_env \<Rightarrow> curl_thread_local \<Rightarrow> string \<Rightarrow> curl_thread_local" where
  "set_url_options env ctx url_arg =
     (let url_str = encode_url env url_arg;
          h = curl_easy_setopt (curl ctx) CURLOPT_URL (Str (c_str url_str));
          h = curl_easy_setopt h CURLOPT_PROTOCOLS (Protocols {CURLPROTO_HTTP, CURLPROTO_HTTPS});
          h = curl_easy_setopt h CURLOPT_FOLLOWLOCATION (Long 1);
          h = curl_easy_setopt h CURLOPT_FAILONERROR (Long 1)
      in ctx\<lparr>curl := h\<rparr>)"

section \<open>Responses (url.cxx, lines 178 to 198; the header of version 0.0.3, lines 33 to 130)\<close>

record response_t =
  status_code :: "32 word"
  headers :: header_t
  body :: string
  encoding :: string
  url :: string

text \<open>A default-constructed \<^verbatim>\<open>response_t\<close>.\<close>

definition response_t_init :: response_t where
  "response_t_init = \<lparr>status_code = 0, headers = [], body = [], encoding = [], url = []\<rparr>"

definition operator_bool :: "response_t \<Rightarrow> bool" where
  "operator_bool r = (status_code r \<ge> 100 \<and> status_code r < 400)"

text \<open>\<^verbatim>\<open>operator<<\<close>: the stream is the text written to it so far.\<close>

definition operator_shift_left :: "string \<Rightarrow> response_t \<Rightarrow> string" where
  "operator_shift_left os response = os @ body response"

text \<open>
  \<^verbatim>\<open>and_then\<close> and \<^verbatim>\<open>or_else\<close> of the header. A callable may have effects, so it is a
  function that takes the state of the program and returns it with its result: a callable
  that is not invoked leaves the state as it is. The four overloads of \<^verbatim>\<open>and_then\<close> and
  the two of \<^verbatim>\<open>or_else\<close> differ in the value category of \<^verbatim>\<open>*this\<close> only and have the same
  body. \<open>value_init\<close> is the value-initialised object \<^verbatim>\<open>T()\<close> of the callable's result type.
  The return type of \<^verbatim>\<open>or_else\<close> is deduced from \<^verbatim>\<open>return *this\<close>, so its callable
  returns a \<^verbatim>\<open>response_t\<close>.
\<close>

definition and_then ::
  "response_t \<Rightarrow> (response_t \<Rightarrow> 's \<Rightarrow> 'a \<times> 's) \<Rightarrow> 'a \<Rightarrow> 's \<Rightarrow> 'a \<times> 's" where
  "and_then this f value_init s = (if operator_bool this then f this s else (value_init, s))"

definition or_else ::
  "response_t \<Rightarrow> ('s \<Rightarrow> response_t \<times> 's) \<Rightarrow> 's \<Rightarrow> response_t \<times> 's" where
  "or_else this f s = (if operator_bool this then (this, s) else f s)"

section \<open>Requests (url.cxx, lines 200 to 354)\<close>

definition set_headers :: "curl_thread_local \<Rightarrow> header_t \<Rightarrow> curl_thread_local" where
  "set_headers ctx headers_arg =
     (let ctx = ctx\<lparr>curl := curl_easy_setopt (curl ctx) CURLOPT_USERAGENT (Str ''libcurl-agent/1.0'')\<rparr>
      in if headers_arg \<noteq> [] then
           let ctx = ctx\<lparr>header_chunk :=
                 foldl (\<lambda>chunk header. curl_slist_append chunk (c_str header))
                   (header_chunk ctx) headers_arg\<rparr>
           in ctx\<lparr>curl := curl_easy_setopt (curl ctx) CURLOPT_HTTPHEADER (Slist (header_chunk ctx))\<rparr>
         else ctx)"

text \<open>
  Lines 236 to 254 of url.cxx and 189 to 203 of url.cpp: the encoding read from the first
  header line that \<open>is_content_type\<close> accepts. The two files differ in that predicate only:
  url.cxx lowers the line before it compares, url.cpp compares the line as it is.
\<close>

definition is_content_type :: "string \<Rightarrow> bool" where
  "is_content_type header = (let lower = map tolower header in starts_with lower ''content-type:'')"

definition is_content_type_v001 :: "string \<Rightarrow> bool" where
  "is_content_type_v001 header = starts_with header ''content-type:''"

definition charset_encoding :: "(string \<Rightarrow> bool) \<Rightarrow> header_t \<Rightarrow> string \<Rightarrow> error + string" where
  "charset_encoding is_ct hdrs encoding0 =
     (case List.find is_ct hdrs of
        None \<Rightarrow> Inr encoding0
      | Some content_type \<Rightarrow>
          (case rfind content_type ''charset='' of
             None \<Rightarrow> Inr encoding0
           | Some first \<Rightarrow>
               (let last = find_char content_type CHR '';'' first
                in substr content_type (first + 8) last)))"

text \<open>
  Lines 221 to 226 of \<^verbatim>\<open>request\<close>: the callbacks are registered and the header
  accumulator is cleared.
\<close>

definition request_setup :: "curl_thread_local \<Rightarrow> curl_thread_local" where
  "request_setup ctx =
     (let h = curl_easy_setopt (curl ctx) CURLOPT_WRITEFUNCTION (Callback write_user_data_fn);
          h = curl_easy_setopt h CURLOPT_WRITEDATA Chunk_ptr;
          ctx = ctx\<lparr>curl := h, response_headers := []\<rparr>
      in ctx\<lparr>curl := curl_easy_setopt (curl ctx) CURLOPT_HEADERFUNCTION (Callback header_callback_fn)\<rparr>)"

text \<open>
  Lines 230 to 263: the response built from a transfer, the headers the callbacks left in
  the context and the body buffer. The header vector is moved from and left empty.
  \<^verbatim>\<open>curl_easy_getinfo\<close> writes the response code, a \<^verbatim>\<open>long\<close>, through the address of the
  32-bit field \<^verbatim>\<open>status_code\<close>: the field holds the code modulo \<open>2 ^ 32\<close>.
\<close>

definition assemble ::
  "(string \<Rightarrow> bool) \<Rightarrow> transfer \<Rightarrow> curl_thread_local \<Rightarrow> user_data \<Rightarrow>
   error + (response_t \<times> curl_thread_local)" where
  "assemble is_ct t ctx chunk =
     (let response = response_t_init;
          curl_res = result t
      in if curl_res = CURLE_OK \<or> curl_res = CURLE_HTTP_RETURNED_ERROR then
           let response = response\<lparr>status_code := word_of_int (response_code t)\<rparr>;
               response = response\<lparr>body := take (size_ud chunk) (memory chunk)\<rparr>;
               response = response\<lparr>headers := response_headers ctx\<rparr>;
               ctx = ctx\<lparr>response_headers := []\<rparr>
           in case charset_encoding is_ct (headers response) (encoding response) of
                Inl e \<Rightarrow> Inl e
              | Inr enc \<Rightarrow>
                  let response = response\<lparr>encoding := enc\<rparr>;
                      response = (case effective_url t of
                                    None \<Rightarrow> response
                                  | Some u \<Rightarrow> response\<lparr>url := u\<rparr>)
                  in Inr (response, ctx)
         else Inr (response, ctx))"

text \<open>
  \<^verbatim>\<open>request\<close>. The result is the response with the context the call leaves, or the
  exception that ends the call; the construction of the body buffer and the write callback
  are the places that throw. After an exception the context is not followed further, so
  the buffer is built first here, whereas the source sets the write callback before it.
\<close>

definition request :: "curl_env \<Rightarrow> curl_thread_local \<Rightarrow> error + (response_t \<times> curl_thread_local)" where
  "request env ctx =
     (case user_data_ctor env of
        Inl e \<Rightarrow> Inl e
      | Inr chunk \<Rightarrow>
          let ctx = request_setup ctx;
              t = curl_easy_perform env (curl ctx)
          in case deliver env (events t) (response_headers ctx, chunk) of
               Inl e \<Rightarrow> Inl e
             | Inr (hdrs, chunk) \<Rightarrow> assemble is_content_type t (ctx\<lparr>response_headers := hdrs\<rparr>) chunk)"

text \<open>
  \<^verbatim>\<open>update\<close> (lines 268 to 284). The string \<^verbatim>\<open>body_str\<close> is local to the block that sets
  \<^verbatim>\<open>CURLOPT_POSTFIELDS\<close> (lines 278 to 281): it is destroyed at the end of that block, before
  \<^verbatim>\<open>request\<close> is called.
\<close>

definition update ::
  "curl_env \<Rightarrow> curl_thread_local \<Rightarrow> string \<Rightarrow> string \<Rightarrow> string \<Rightarrow> header_t \<Rightarrow>
   error + (response_t \<times> curl_thread_local)" where
  "update env ctx url_arg method body_arg headers_arg =
     (let ctx = set_url_options env ctx url_arg;
          ctx = ctx\<lparr>curl := curl_easy_setopt (curl ctx) CURLOPT_CUSTOMREQUEST (Str method)\<rparr>;
          ctx = set_headers ctx headers_arg;
          ctx = (if body_arg \<noteq> [] then
                   let body_str = body_arg;
                       ctx = ctx\<lparr>curl := curl_easy_setopt (curl ctx) CURLOPT_POSTFIELDS
                               (Postfields (c_str body_str))\<rparr>
                   in ctx\<lparr>curl := string_dtor (curl ctx)\<rparr>
                 else ctx)
      in request env ctx)"

definition del ::
  "curl_env \<Rightarrow> curl_thread_local \<Rightarrow> string \<Rightarrow> string \<Rightarrow> header_t \<Rightarrow>
   error + (response_t \<times> curl_thread_local)" where
  "del env ctx url_arg body_arg headers_arg = update env ctx url_arg ''DELETE'' body_arg headers_arg"

definition get ::
  "curl_env \<Rightarrow> curl_thread_local \<Rightarrow> string \<Rightarrow> header_t \<Rightarrow>
   error + (response_t \<times> curl_thread_local)" where
  "get env ctx url_arg headers_arg =
     (let ctx = set_url_options env ctx url_arg;
          ctx = set_headers ctx headers_arg
      in request env ctx)"

definition head ::
  "curl_env \<Rightarrow> curl_thread_local \<Rightarrow> string \<Rightarrow> header_t \<Rightarrow>
   error + (response_t \<times> curl_thread_local)" where
  "head env ctx url_arg headers_arg =
     (let ctx = set_url_options env ctx url_arg;
          ctx = ctx\<lparr>curl := curl_easy_setopt (curl ctx) CURLOPT_NOBODY (Long 1)\<rparr>;
          ctx = set_headers ctx headers_arg
      in request env ctx)"

definition patch ::
  "curl_env \<Rightarrow> curl_thread_local \<Rightarrow> string \<Rightarrow> string \<Rightarrow> header_t \<Rightarrow>
   error + (response_t \<times> curl_thread_local)" where
  "patch env ctx url_arg body_arg headers_arg = update env ctx url_arg ''PATCH'' body_arg headers_arg"

text \<open>
  \<^verbatim>\<open>post\<close> with a raw body (lines 319 to 329). The string \<^verbatim>\<open>body_str\<close> lives until \<^verbatim>\<open>post\<close>
  returns: the transfer reads it, and the handle keeps the pointer afterwards.
\<close>

definition post ::
  "curl_env \<Rightarrow> curl_thread_local \<Rightarrow> string \<Rightarrow> string \<Rightarrow> header_t \<Rightarrow>
   error + (response_t \<times> curl_thread_local)" where
  "post env ctx url_arg body_arg headers_arg =
     (let ctx = set_url_options env ctx url_arg;
          ctx = set_headers ctx headers_arg;
          body_str = body_arg;
          ctx = ctx\<lparr>curl := curl_easy_setopt (curl ctx) CURLOPT_POSTFIELDS (Postfields (c_str body_str))\<rparr>
      in case request env ctx of
           Inl e \<Rightarrow> Inl e
         | Inr (response, ctx) \<Rightarrow> Inr (response, ctx\<lparr>curl := string_dtor (curl ctx)\<rparr>))"

text \<open>
  The overload of \<^verbatim>\<open>post\<close> that takes a form (lines 331 to 348). The multipart body is
  owned by a \<^verbatim>\<open>unique_ptr\<close> whose deleter is \<^verbatim>\<open>curl_mime_free\<close>: it is released when \<^verbatim>\<open>post\<close>
  returns.
\<close>

definition post_form ::
  "curl_env \<Rightarrow> curl_thread_local \<Rightarrow> string \<Rightarrow> form_t \<Rightarrow> header_t \<Rightarrow>
   error + (response_t \<times> curl_thread_local)" where
  "post_form env ctx url_arg form headers_arg =
     (let ctx = set_url_options env ctx url_arg;
          ctx = set_headers ctx headers_arg;
          mime = foldl (\<lambda>parts field. parts @ [(c_str (fst field), c_str (snd field))]) [] form;
          ctx = ctx\<lparr>curl := curl_easy_setopt (curl ctx) CURLOPT_MIMEPOST (Mime mime)\<rparr>
      in case request env ctx of
           Inl e \<Rightarrow> Inl e
         | Inr (response, ctx) \<Rightarrow> Inr (response, ctx\<lparr>curl := curl_mime_free (curl ctx)\<rparr>))"

definition put ::
  "curl_env \<Rightarrow> curl_thread_local \<Rightarrow> string \<Rightarrow> string \<Rightarrow> header_t \<Rightarrow>
   error + (response_t \<times> curl_thread_local)" where
  "put env ctx url_arg body_arg headers_arg = update env ctx url_arg ''PUT'' body_arg headers_arg"

section \<open>Version 0.0.1 (url.cpp, lines 156 to 215)\<close>

text \<open>
  The \<^verbatim>\<open>get\<close> of url.cpp, the only operation of that file. It passes the URL on as it
  is and sets no protocol option. Its lines 165 to 172 are the body of \<^verbatim>\<open>set_headers\<close>, its
  lines 175 to 179 set what \<open>request_setup\<close> sets, and its lines 181 to 214 are those of
  \<^verbatim>\<open>request\<close> with the comparison \<open>is_content_type_v001\<close>.
\<close>

definition get_v001 ::
  "curl_env \<Rightarrow> curl_thread_local \<Rightarrow> string \<Rightarrow> header_t \<Rightarrow>
   error + (response_t \<times> curl_thread_local)" where
  "get_v001 env ctx url_arg headers_arg =
     (let url_str = url_arg;
          h = curl_easy_setopt (curl ctx) CURLOPT_URL (Str (c_str url_str));
          h = curl_easy_setopt h CURLOPT_FOLLOWLOCATION (Long 1);
          h = curl_easy_setopt h CURLOPT_FAILONERROR (Long 1);
          ctx = set_headers (ctx\<lparr>curl := h\<rparr>) headers_arg
      in case user_data_ctor env of
           Inl e \<Rightarrow> Inl e
         | Inr chunk \<Rightarrow>
             let ctx = request_setup ctx;
                 t = curl_easy_perform env (curl ctx)
             in case deliver env (events t) (response_headers ctx, chunk) of
                  Inl e \<Rightarrow> Inl e
                | Inr (hdrs, chunk) \<Rightarrow>
                    assemble is_content_type_v001 t (ctx\<lparr>response_headers := hdrs\<rparr>) chunk)"

section \<open>The public operations as one function\<close>

text \<open>
  A call of a public operation of url.cxx with its arguments, \<open>invoke\<close> to run it,
  \<open>configured\<close> for the context in which the operation calls \<^verbatim>\<open>request\<close>, and \<open>after_return\<close>
  for what the destructors of the operation's local objects do to the handle once
  \<^verbatim>\<open>request\<close> has returned: every operation sets its options and then ends in
  \<^verbatim>\<open>return request()\<close>.
\<close>

datatype call =
    Get string header_t
  | Head string header_t
  | Post string string header_t
  | Post_form string form_t header_t
  | Put string string header_t
  | Patch string string header_t
  | Del string string header_t

fun invoke ::
  "curl_env \<Rightarrow> curl_thread_local \<Rightarrow> call \<Rightarrow> error + (response_t \<times> curl_thread_local)" where
  "invoke env ctx (Get u hs) = get env ctx u hs"
| "invoke env ctx (Head u hs) = head env ctx u hs"
| "invoke env ctx (Post u b hs) = post env ctx u b hs"
| "invoke env ctx (Post_form u f hs) = post_form env ctx u f hs"
| "invoke env ctx (Put u b hs) = put env ctx u b hs"
| "invoke env ctx (Patch u b hs) = patch env ctx u b hs"
| "invoke env ctx (Del u b hs) = del env ctx u b hs"

definition set_postfields :: "curl_thread_local \<Rightarrow> string \<Rightarrow> curl_thread_local" where
  "set_postfields ctx b = ctx\<lparr>curl := curl_easy_setopt (curl ctx) CURLOPT_POSTFIELDS (Postfields (c_str b))\<rparr>"

definition configured_update ::
  "curl_env \<Rightarrow> curl_thread_local \<Rightarrow> string \<Rightarrow> string \<Rightarrow> string \<Rightarrow> header_t \<Rightarrow> curl_thread_local" where
  "configured_update env ctx u method b hs =
     (let ctx1 = set_url_options env ctx u;
          ctx2 = set_headers
                   (ctx1\<lparr>curl := curl_easy_setopt (curl ctx1) CURLOPT_CUSTOMREQUEST (Str method)\<rparr>) hs
      in if b \<noteq> [] then (set_postfields ctx2 b)\<lparr>curl := string_dtor (curl (set_postfields ctx2 b))\<rparr>
         else ctx2)"

fun configured :: "curl_env \<Rightarrow> curl_thread_local \<Rightarrow> call \<Rightarrow> curl_thread_local" where
  "configured env ctx (Get u hs) = set_headers (set_url_options env ctx u) hs"
| "configured env ctx (Head u hs) =
     (let ctx1 = set_url_options env ctx u
      in set_headers (ctx1\<lparr>curl := curl_easy_setopt (curl ctx1) CURLOPT_NOBODY (Long 1)\<rparr>) hs)"
| "configured env ctx (Post u b hs) =
     set_postfields (set_headers (set_url_options env ctx u) hs) b"
| "configured env ctx (Post_form u f hs) =
     (let ctx1 = set_headers (set_url_options env ctx u) hs
      in ctx1\<lparr>curl := curl_easy_setopt (curl ctx1) CURLOPT_MIMEPOST
                 (Mime (map (\<lambda>field. (c_str (fst field), c_str (snd field))) f))\<rparr>)"
| "configured env ctx (Put u b hs) = configured_update env ctx u ''PUT'' b hs"
| "configured env ctx (Patch u b hs) = configured_update env ctx u ''PATCH'' b hs"
| "configured env ctx (Del u b hs) = configured_update env ctx u ''DELETE'' b hs"

fun after_return :: "call \<Rightarrow> CURL \<Rightarrow> CURL" where
  "after_return (Get u hs) h = h"
| "after_return (Head u hs) h = h"
| "after_return (Post u b hs) h = string_dtor h"
| "after_return (Post_form u f hs) h = curl_mime_free h"
| "after_return (Put u b hs) h = h"
| "after_return (Patch u b hs) h = h"
| "after_return (Del u b hs) h = h"

text \<open>The handle a call hands to \<^verbatim>\<open>curl_easy_perform\<close>, and the transfer that follows.\<close>

definition transfer_handle :: "curl_env \<Rightarrow> curl_thread_local \<Rightarrow> call \<Rightarrow> CURL" where
  "transfer_handle env ctx c = curl (request_setup (configured env ctx c))"

definition transfer_of :: "curl_env \<Rightarrow> curl_thread_local \<Rightarrow> call \<Rightarrow> transfer" where
  "transfer_of env ctx c = curl_easy_perform env (transfer_handle env ctx c)"

text \<open>The same for the \<^verbatim>\<open>get\<close> of url.cpp.\<close>

definition configured_v001 :: "curl_thread_local \<Rightarrow> string \<Rightarrow> header_t \<Rightarrow> curl_thread_local" where
  "configured_v001 ctx u hs =
     set_headers
       (ctx\<lparr>curl := curl_easy_setopt
          (curl_easy_setopt (curl_easy_setopt (curl ctx) CURLOPT_URL (Str (c_str u)))
             CURLOPT_FOLLOWLOCATION (Long 1))
          CURLOPT_FAILONERROR (Long 1)\<rparr>) hs"

definition transfer_v001 :: "curl_env \<Rightarrow> curl_thread_local \<Rightarrow> string \<Rightarrow> header_t \<Rightarrow> transfer" where
  "transfer_v001 env ctx u hs = curl_easy_perform env (curl (request_setup (configured_v001 ctx u hs)))"

text \<open>
  The outcomes with a response to inspect, the header lines and the body bytes a transfer
  delivers, and a header line as the specification stores it: without its final carriage
  return and line feed, when it ends with them.
\<close>

definition inspectable :: "transfer \<Rightarrow> bool" where
  "inspectable t = (result t = CURLE_OK \<or> result t = CURLE_HTTP_RETURNED_ERROR)"

fun header_lines :: "event list \<Rightarrow> string list" where
  "header_lines [] = []"
| "header_lines (Header_line l # es) = l # header_lines es"
| "header_lines (Body_chunk b # es) = header_lines es"

fun body_bytes :: "event list \<Rightarrow> string" where
  "body_bytes [] = []"
| "body_bytes (Header_line l # es) = body_bytes es"
| "body_bytes (Body_chunk b # es) = b @ body_bytes es"

definition strip_crlf :: "string \<Rightarrow> string" where
  "strip_crlf l =
     (if 2 \<le> length l \<and> drop (length l - 2) l = [CHR 0x0D, CHR 0x0A]
      then take (length l - 2) l else l)"

text \<open>Every allocation of the call succeeds.\<close>

definition allocations_succeed :: "curl_env \<Rightarrow> bool" where
  "allocations_succeed env = (malloc_ok env 1 \<and> (\<forall>n. realloc_ok env n))"

text \<open>
  What \<^verbatim>\<open>request\<close> and the \<^verbatim>\<open>get\<close> of url.cpp share from the construction of the body
  buffer on, with the header predicate as a parameter.
\<close>

definition perform_and_assemble ::
  "(string \<Rightarrow> bool) \<Rightarrow> curl_env \<Rightarrow> curl_thread_local \<Rightarrow> error + (response_t \<times> curl_thread_local)" where
  "perform_and_assemble is_ct env ctx =
     (case user_data_ctor env of
        Inl e \<Rightarrow> Inl e
      | Inr chunk \<Rightarrow>
          (case deliver env (events (curl_easy_perform env (curl (request_setup ctx)))) ([], chunk) of
             Inl e \<Rightarrow> Inl e
           | Inr (hdrs, chunk') \<Rightarrow>
               assemble is_ct (curl_easy_perform env (curl (request_setup ctx)))
                 ((request_setup ctx)\<lparr>response_headers := hdrs\<rparr>) chunk'))"

text \<open>\<open>occurs_at p s j\<close>: the string \<open>p\<close> stands in \<open>s\<close> at position \<open>j\<close>.\<close>

definition occurs_at :: "string \<Rightarrow> string \<Rightarrow> nat \<Rightarrow> bool" where
  "occurs_at p s j = (j + length p \<le> length s \<and> take (length p) (drop j s) = p)"

text \<open>The header list and the URL a call supplies.\<close>

fun headers_of :: "call \<Rightarrow> header_t" where
  "headers_of (Get u hs) = hs"
| "headers_of (Head u hs) = hs"
| "headers_of (Post u b hs) = hs"
| "headers_of (Post_form u f hs) = hs"
| "headers_of (Put u b hs) = hs"
| "headers_of (Patch u b hs) = hs"
| "headers_of (Del u b hs) = hs"


text \<open>
  The options a call writes before its transfer: those of \<^verbatim>\<open>set_url_options\<close>,
  \<^verbatim>\<open>set_headers\<close> and \<^verbatim>\<open>request\<close>, and the call's own. With \<^verbatim>\<open>CURLOPT_MIMEPOST\<close> the engine
  writes \<^verbatim>\<open>CURLOPT_NOBODY\<close> as well.
\<close>

definition common_options :: "header_t \<Rightarrow> CURLoption set" where
  "common_options hs =
     {CURLOPT_URL, CURLOPT_PROTOCOLS, CURLOPT_FOLLOWLOCATION, CURLOPT_FAILONERROR,
      CURLOPT_USERAGENT, CURLOPT_WRITEFUNCTION, CURLOPT_WRITEDATA, CURLOPT_HEADERFUNCTION}
     \<union> (if hs \<noteq> [] then {CURLOPT_HTTPHEADER} else {})"

fun options_set_by :: "call \<Rightarrow> CURLoption set" where
  "options_set_by (Get u hs) = common_options hs"
| "options_set_by (Head u hs) = common_options hs \<union> {CURLOPT_NOBODY}"
| "options_set_by (Post u b hs) = common_options hs \<union> {CURLOPT_POSTFIELDS}"
| "options_set_by (Post_form u f hs) = common_options hs \<union> {CURLOPT_MIMEPOST, CURLOPT_NOBODY}"
| "options_set_by (Put u b hs) =
     common_options hs \<union> {CURLOPT_CUSTOMREQUEST} \<union> (if b \<noteq> [] then {CURLOPT_POSTFIELDS} else {})"
| "options_set_by (Patch u b hs) =
     common_options hs \<union> {CURLOPT_CUSTOMREQUEST} \<union> (if b \<noteq> [] then {CURLOPT_POSTFIELDS} else {})"
| "options_set_by (Del u b hs) =
     common_options hs \<union> {CURLOPT_CUSTOMREQUEST} \<union> (if b \<noteq> [] then {CURLOPT_POSTFIELDS} else {})"

text \<open>
  Calls one after the other on one worker, each in its own environment: the responses in
  order and the context the last call leaves, or the first exception.
\<close>

fun invoke_all ::
  "curl_thread_local \<Rightarrow> (curl_env \<times> call) list \<Rightarrow> error + (response_t list \<times> curl_thread_local)" where
  "invoke_all ctx [] = Inr ([], ctx)"
| "invoke_all ctx ((env, c) # cs) =
     (case invoke env ctx c of
        Inl e \<Rightarrow> Inl e
      | Inr (r, ctx') \<Rightarrow>
          (case invoke_all ctx' cs of
             Inl e \<Rightarrow> Inl e
           | Inr (rs, ctx'') \<Rightarrow> Inr (r # rs, ctx'')))"

text \<open>
  Examples: a worker whose handle has no option set, and the environment in which the URL
  parser rejects every input, every allocation succeeds and every transfer is \<open>t\<close>.
\<close>

definition fresh_context :: curl_thread_local where
  "fresh_context = \<lparr>curl = Map.empty, header_chunk = [], response_headers = []\<rparr>"

definition env_with :: "transfer \<Rightarrow> curl_env" where
  "env_with t =
     \<lparr>curl_url_set = (\<lambda>input flags. CURLUE_MALFORMED_INPUT),
      curl_url_get = (\<lambda>input flags. []),
      curl_easy_perform = (\<lambda>h. t),
      malloc_ok = (\<lambda>n. True),
      realloc_ok = (\<lambda>n. True)\<rparr>"

definition transfer_failed :: transfer where
  "transfer_failed =
     \<lparr>events = [], result = CURLE_COULDNT_RESOLVE_HOST, response_code = 0, effective_url = None\<rparr>"

definition transfer_example :: transfer where
  "transfer_example =
     \<lparr>events = [Header_line (''HTTP/1.1 200 OK'' @ [CHR 0x0D, CHR 0x0A]),
                Header_line (''Content-Length: 5'' @ [CHR 0x0D, CHR 0x0A]),
                Header_line ''X-Last: kept as it is'',
                Header_line [CHR 0x0D, CHR 0x0A],
                Body_chunk ''hel'', Body_chunk ''lo''],
      result = CURLE_OK, response_code = 200, effective_url = Some ''http://example.com/''\<rparr>"

definition transfer_ftp :: transfer where
  "transfer_ftp =
     \<lparr>events = [Body_chunk ''data''], result = CURLE_OK, response_code = 226,
      effective_url = Some ''ftp://example.com/file''\<rparr>"

text \<open>A transfer that delivers two header lines and a part of the body and then fails.\<close>

definition transfer_cut_short :: transfer where
  "transfer_cut_short =
     \<lparr>events = [Header_line (''HTTP/1.1 200 OK'' @ [CHR 0x0D, CHR 0x0A]),
                Header_line (''Content-Type: text/plain'' @ [CHR 0x0D, CHR 0x0A]),
                Body_chunk ''par''],
      result = CURLE_other 18, response_code = 200, effective_url = Some ''http://example.com/''\<rparr>"


text \<open>
  The raw body a call passes to \<^verbatim>\<open>CURLOPT_POSTFIELDS\<close> and the method it sets with
  \<^verbatim>\<open>CURLOPT_CUSTOMREQUEST\<close>, if any.
\<close>

fun payload_of :: "call \<Rightarrow> string option" where
  "payload_of (Get u hs) = None"
| "payload_of (Head u hs) = None"
| "payload_of (Post u b hs) = Some b"
| "payload_of (Post_form u f hs) = None"
| "payload_of (Put u b hs) = (if b \<noteq> [] then Some b else None)"
| "payload_of (Patch u b hs) = (if b \<noteq> [] then Some b else None)"
| "payload_of (Del u b hs) = (if b \<noteq> [] then Some b else None)"

fun custom_method_of :: "call \<Rightarrow> string option" where
  "custom_method_of (Get u hs) = None"
| "custom_method_of (Head u hs) = None"
| "custom_method_of (Post u b hs) = None"
| "custom_method_of (Post_form u f hs) = None"
| "custom_method_of (Put u b hs) = Some ''PUT''"
| "custom_method_of (Patch u b hs) = Some ''PATCH''"
| "custom_method_of (Del u b hs) = Some ''DELETE''"

text \<open>
  Transfers whose content type line is written in capitals throughout, has a parameter
  after the character set, and is the usual one.
\<close>

definition transfer_capitals :: transfer where
  "transfer_capitals =
     \<lparr>events = [Header_line (''HTTP/1.1 200 OK'' @ [CHR 0x0D, CHR 0x0A]),
                Header_line (''CONTENT-TYPE: TEXT/HTML; CHARSET=UTF-8'' @ [CHR 0x0D, CHR 0x0A]),
                Header_line [CHR 0x0D, CHR 0x0A]],
      result = CURLE_OK, response_code = 200, effective_url = Some ''http://example.com/''\<rparr>"

definition transfer_boundary :: transfer where
  "transfer_boundary =
     \<lparr>events = [Header_line (''HTTP/1.1 200 OK'' @ [CHR 0x0D, CHR 0x0A]),
                Header_line (''Content-Type: multipart/mixed; charset=UTF-8; boundary=frontier''
                  @ [CHR 0x0D, CHR 0x0A]),
                Header_line [CHR 0x0D, CHR 0x0A]],
      result = CURLE_OK, response_code = 200, effective_url = Some ''http://example.com/''\<rparr>"

definition transfer_html :: transfer where
  "transfer_html =
     \<lparr>events = [Header_line (''HTTP/1.1 200 OK'' @ [CHR 0x0D, CHR 0x0A]),
                Header_line (''Content-Type: text/html; charset=UTF-8'' @ [CHR 0x0D, CHR 0x0A]),
                Header_line [CHR 0x0D, CHR 0x0A],
                Body_chunk ''<html></html>''],
      result = CURLE_OK, response_code = 200, effective_url = Some ''http://example.com/''\<rparr>"

text \<open>
  The rule for the encoding of a response, for the predicate \<open>is_ct\<close> that recognises a
  content type line: the encoding is empty when no header line is one; and for the first
  header line that is one, it is empty when \<^verbatim>\<open>charset=\<close> does not occur in the line, and it
  is all that follows \<^verbatim>\<open>charset=\<close> when neither a further \<^verbatim>\<open>charset=\<close> nor a semicolon
  follows. The rule says nothing of a line with a semicolon after \<^verbatim>\<open>charset=\<close>.
\<close>

definition encoding_rule :: "(string \<Rightarrow> bool) \<Rightarrow> response_t \<Rightarrow> bool" where
  "encoding_rule is_ct r =
     (((\<forall>h\<in>set (headers r). \<not> is_ct h) \<longrightarrow> encoding r = [])
      \<and> (\<forall>pref ct suf. headers r = pref @ ct # suf
            \<and> (\<forall>h\<in>set pref. \<not> is_ct h) \<and> is_ct ct
            \<and> (\<forall>j. \<not> occurs_at ''charset='' ct j) \<longrightarrow> encoding r = [])
      \<and> (\<forall>pref a b suf. headers r = pref @ (a @ ''charset='' @ b) # suf
            \<and> (\<forall>h\<in>set pref. \<not> is_ct h) \<and> is_ct (a @ ''charset='' @ b)
            \<and> (\<forall>j. \<not> occurs_at ''charset='' b j) \<and> CHR '';'' \<notin> set b \<longrightarrow> encoding r = b))"

section \<open>Lemmas about the callbacks, the transfer and the options\<close>

lemma stored_line_eq:
  "(if ends_with l [CHR 0x0D, CHR 0x0A] then pop_back (pop_back l) else l) = strip_crlf l"
proof -
  have "butlast (butlast l) = take (length l - 2) l"
    by (simp add: butlast_conv_take numeral_2_eq_2)
  then show ?thesis
    by (simp add: strip_crlf_def ends_with_def pop_back_def numeral_2_eq_2)
qed

lemma header_callback_snd:
  "snd (header_callback buffer sz n hdrs) = hdrs @ [strip_crlf (take n buffer)]"
  unfolding header_callback_def Let_def snd_conv stored_line_eq ..

lemma strip_crlf_append: "strip_crlf (p @ [CHR 0x0D, CHR 0x0A]) = p"
  by (simp add: strip_crlf_def)

lemma strip_crlf_other:
  assumes "\<And>p. l \<noteq> p @ [CHR 0x0D, CHR 0x0A]"
  shows "strip_crlf l = l"
proof (cases "2 \<le> length l \<and> drop (length l - 2) l = [CHR 0x0D, CHR 0x0A]")
  case True
  then have "l = take (length l - 2) l @ [CHR 0x0D, CHR 0x0A]"
    by (metis append_take_drop_id)
  with assms show ?thesis by blast
next
  case False
  then show ?thesis by (auto simp: strip_crlf_def)
qed

lemma write_user_data_Inr:
  assumes "write_user_data env b 1 (length b) chunk = Inr (n, chunk')"
    and "size_ud chunk \<le> length (memory chunk)"
  shows "take (size_ud chunk') (memory chunk') = take (size_ud chunk) (memory chunk) @ b
     \<and> size_ud chunk' \<le> length (memory chunk') \<and> n = length b"
  using assms by (auto simp: write_user_data_def Let_def split: if_splits)

lemma deliver_Inr:
  assumes "deliver env es (hdrs, chunk) = Inr (hdrs', chunk')"
    and "size_ud chunk \<le> length (memory chunk)"
  shows "hdrs' = hdrs @ map strip_crlf (header_lines es)
     \<and> take (size_ud chunk') (memory chunk') = take (size_ud chunk) (memory chunk) @ body_bytes es"
  using assms
proof (induction es arbitrary: hdrs chunk)
  case Nil
  then show ?case by simp
next
  case (Cons e es)
  show ?case
  proof (cases e)
    case (Header_line l)
    with Cons.prems Cons.IH [of "hdrs @ [strip_crlf l]" chunk] show ?thesis
      by (simp add: header_callback_snd)
  next
    case (Body_chunk b)
    with Cons.prems obtain n c1 where w: "write_user_data env b 1 (length b) chunk = Inr (n, c1)"
      and d: "deliver env es (hdrs, c1) = Inr (hdrs', chunk')"
      by (auto split: sum.splits)
    from write_user_data_Inr [OF w Cons.prems(2)] Cons.IH [OF d] Body_chunk show ?thesis
      by simp
  qed
qed

lemma deliver_total:
  assumes "\<forall>n. realloc_ok env n"
  shows "\<exists>st'. deliver env es st = Inr st'"
proof (induction es arbitrary: st)
  case Nil
  then show ?case by simp
next
  case (Cons e es)
  obtain hdrs chunk where st: "st = (hdrs, chunk)" by (cases st)
  show ?case
  proof (cases e)
    case (Header_line l)
    with st Cons.IH show ?thesis by simp
  next
    case (Body_chunk b)
    with st assms Cons.IH show ?thesis
      by (simp add: write_user_data_def Let_def)
  qed
qed

lemma rfind_from_bounds:
  "rfind_from p s i = Some j \<Longrightarrow> i \<le> j \<and> j + length p \<le> i + length s"
proof (induction s arbitrary: i)
  case Nil
  then show ?case by (simp split: if_splits)
next
  case (Cons c cs)
  show ?case
  proof (cases "rfind_from p cs (Suc i)")
    case None
    with Cons.prems have sw: "starts_with (c # cs) p" and "j = i"
      by (auto split: if_splits)
    from sw have "length (take (length p) (c # cs)) = length p"
      by (simp only: starts_with_def)
    then have "length p \<le> length (c # cs)"
      by simp
    with \<open>j = i\<close> show ?thesis by simp
  next
    case (Some k)
    with Cons.prems have "k = j" by simp
    with Some Cons.IH [of "Suc i"] show ?thesis by simp
  qed
qed

lemma charset_encoding_total: "\<exists>enc. charset_encoding is_ct hdrs e0 = Inr enc"
proof -
  have "\<exists>enc. substr ct (first + 8) l = Inr enc" if "rfind ct ''charset='' = Some first" for ct first l
  proof -
    from rfind_from_bounds [of "''charset=''" ct 0 first] that have "first + 8 \<le> length ct"
      by (simp add: rfind_def)
    then show ?thesis by (simp add: substr_def)
  qed
  then show ?thesis
    by (auto simp: charset_encoding_def Let_def split: option.splits)
qed

lemma request_setup_simps:
  "curl (request_setup ctx) =
     (curl ctx)(CURLOPT_WRITEFUNCTION \<mapsto> Callback write_user_data_fn,
                CURLOPT_WRITEDATA \<mapsto> Chunk_ptr,
                CURLOPT_HEADERFUNCTION \<mapsto> Callback header_callback_fn)"
  "header_chunk (request_setup ctx) = header_chunk ctx"
  "response_headers (request_setup ctx) = []"
  by (simp_all add: request_setup_def curl_easy_setopt_def Let_def)

lemma request_eq: "request env ctx = perform_and_assemble is_content_type env ctx"
  by (simp add: request_def perform_and_assemble_def Let_def request_setup_simps
      split: sum.splits)

lemma get_v001_eq:
  "get_v001 env ctx u hs = perform_and_assemble is_content_type_v001 env (configured_v001 ctx u hs)"
  by (simp add: get_v001_def perform_and_assemble_def configured_v001_def Let_def
      request_setup_simps split: sum.splits)

lemma assemble_not_inspectable:
  "\<not> inspectable t \<Longrightarrow> assemble is_ct t ctx chunk = Inr (response_t_init, ctx)"
  by (simp add: assemble_def inspectable_def Let_def)

lemma assemble_inspectable:
  assumes "inspectable t" and "assemble is_ct t ctx chunk = Inr (r, ctx')"
  shows "status_code r = word_of_int (response_code t)
    \<and> headers r = response_headers ctx
    \<and> body r = take (size_ud chunk) (memory chunk)
    \<and> charset_encoding is_ct (response_headers ctx) [] = Inr (encoding r)
    \<and> url r = (case effective_url t of None \<Rightarrow> [] | Some u \<Rightarrow> u)
    \<and> ctx' = ctx\<lparr>response_headers := []\<rparr>"
  using assms
  by (auto simp: assemble_def inspectable_def Let_def response_t_init_def
      split: sum.splits option.splits)

lemma perform_and_assemble_Inr:
  assumes "perform_and_assemble is_ct env ctx = Inr (r, ctx')"
  shows "curl ctx' = curl (request_setup ctx) \<and> header_chunk ctx' = header_chunk ctx
    \<and> (if inspectable (curl_easy_perform env (curl (request_setup ctx)))
        then status_code r = word_of_int (response_code (curl_easy_perform env (curl (request_setup ctx))))
          \<and> headers r = map strip_crlf (header_lines (events (curl_easy_perform env (curl (request_setup ctx)))))
          \<and> body r = body_bytes (events (curl_easy_perform env (curl (request_setup ctx))))
          \<and> charset_encoding is_ct (headers r) [] = Inr (encoding r)
          \<and> url r = (case effective_url (curl_easy_perform env (curl (request_setup ctx))) of
                       None \<Rightarrow> [] | Some u \<Rightarrow> u)
          \<and> response_headers ctx' = []
        else r = response_t_init
          \<and> response_headers ctx' =
              map strip_crlf (header_lines (events (curl_easy_perform env (curl (request_setup ctx))))))"
proof -
  define t where "t = curl_easy_perform env (curl (request_setup ctx))"
  from assms obtain chunk where c: "user_data_ctor env = Inr chunk"
    by (auto simp: perform_and_assemble_def split: sum.splits)
  then have c0: "chunk = \<lparr>memory = [CHR 0x00], size_ud = 0\<rparr>"
    by (auto simp: user_data_ctor_def split: if_splits)
  from assms c obtain hdrs chunk' where d: "deliver env (events t) ([], chunk) = Inr (hdrs, chunk')"
    and a: "assemble is_ct t ((request_setup ctx)\<lparr>response_headers := hdrs\<rparr>) chunk' = Inr (r, ctx')"
    by (auto simp: perform_and_assemble_def t_def split: sum.splits)
  from deliver_Inr [OF d] c0 have h: "hdrs = map strip_crlf (header_lines (events t))"
    and b: "take (size_ud chunk') (memory chunk') = body_bytes (events t)"
    by simp_all
  show ?thesis
  proof (cases "inspectable t")
    case True
    from assemble_inspectable [OF True a] h b True show ?thesis
      unfolding t_def [symmetric] by (simp add: request_setup_simps)
  next
    case False
    from a assemble_not_inspectable [OF False] h False show ?thesis
      unfolding t_def [symmetric] by (auto simp: request_setup_simps)
  qed
qed

lemma perform_and_assemble_total:
  assumes "allocations_succeed env"
  shows "\<exists>r ctx'. perform_and_assemble is_ct env ctx = Inr (r, ctx')"
proof -
  define t where "t = curl_easy_perform env (curl (request_setup ctx))"
  from assms have c: "user_data_ctor env = Inr \<lparr>memory = [CHR 0x00], size_ud = 0\<rparr>"
    by (simp add: allocations_succeed_def user_data_ctor_def)
  from assms have "\<forall>n. realloc_ok env n"
    by (simp add: allocations_succeed_def)
  from deliver_total [OF this] obtain hdrs chunk'
    where d: "deliver env (events t) ([], \<lparr>memory = [CHR 0x00], size_ud = 0\<rparr>) = Inr (hdrs, chunk')"
    by fastforce
  have "\<exists>r ctx'. assemble is_ct t c1 chunk' = Inr (r, ctx')" for c1
  proof (cases "inspectable t")
    case True
    obtain enc where "charset_encoding is_ct (response_headers c1) [] = Inr enc"
      using charset_encoding_total by blast
    with True show ?thesis
      by (simp add: assemble_def inspectable_def Let_def response_t_init_def)
  next
    case False
    then show ?thesis by (simp add: assemble_not_inspectable)
  qed
  with c d show ?thesis
    by (simp add: perform_and_assemble_def t_def [symmetric])
qed

lemma foldl_mime:
  "foldl (\<lambda>parts field. parts @ [(c_str (fst field), c_str (snd field))]) acc form =
   acc @ map (\<lambda>field. (c_str (fst field), c_str (snd field))) form"
  by (induction form arbitrary: acc) simp_all

lemma update_eq: "update env ctx u m b hs = request env (configured_update env ctx u m b hs)"
  by (simp add: update_def configured_update_def set_postfields_def Let_def)

lemma invoke_eq:
  "invoke env ctx c =
     (case request env (configured env ctx c) of
        Inl e \<Rightarrow> Inl e
      | Inr (r, ctx') \<Rightarrow> Inr (r, ctx'\<lparr>curl := after_return c (curl ctx')\<rparr>))"
  by (cases c)
    (simp_all add: get_def head_def post_def post_form_def put_def patch_def del_def
      update_eq set_postfields_def Let_def foldl_mime split: sum.splits)

lemma foldl_slist:
  "foldl (\<lambda>chunk header. curl_slist_append chunk (c_str header)) acc hs = acc @ map c_str hs"
  by (induction hs arbitrary: acc) (simp_all add: curl_slist_append_def)

lemma set_headers_simps:
  "header_chunk (set_headers ctx hs) = header_chunk ctx @ map c_str hs"
  "response_headers (set_headers ctx hs) = response_headers ctx"
  "curl (set_headers ctx hs) =
     (if hs \<noteq> []
      then (curl ctx)(CURLOPT_USERAGENT \<mapsto> Str ''libcurl-agent/1.0'',
                      CURLOPT_HTTPHEADER \<mapsto> Slist (header_chunk ctx @ map c_str hs))
      else (curl ctx)(CURLOPT_USERAGENT \<mapsto> Str ''libcurl-agent/1.0''))"
  by (simp_all add: set_headers_def Let_def foldl_slist curl_easy_setopt_def)

lemma set_url_options_simps:
  "header_chunk (set_url_options env ctx u) = header_chunk ctx"
  "response_headers (set_url_options env ctx u) = response_headers ctx"
  "curl (set_url_options env ctx u) =
     (curl ctx)(CURLOPT_URL \<mapsto> Str (c_str (encode_url env u)),
                CURLOPT_PROTOCOLS \<mapsto> Protocols {CURLPROTO_HTTP, CURLPROTO_HTTPS},
                CURLOPT_FOLLOWLOCATION \<mapsto> Long 1,
                CURLOPT_FAILONERROR \<mapsto> Long 1)"
  by (simp_all add: set_url_options_def Let_def curl_easy_setopt_def)

lemma set_postfields_simps:
  "header_chunk (set_postfields ctx b) = header_chunk ctx"
  "response_headers (set_postfields ctx b) = response_headers ctx"
  "curl (set_postfields ctx b) = (curl ctx)(CURLOPT_POSTFIELDS \<mapsto> Postfields (c_str b))"
  by (simp_all add: set_postfields_def curl_easy_setopt_def)

lemmas config_simps =
  set_headers_simps set_url_options_simps set_postfields_simps request_setup_simps
  configured_update_def transfer_handle_def curl_easy_setopt_def string_dtor_def
  curl_mime_free_def Let_def

lemma after_return_frame:
  "opt \<noteq> CURLOPT_POSTFIELDS \<Longrightarrow> opt \<noteq> CURLOPT_MIMEPOST \<Longrightarrow> after_return c h opt = h opt"
  by (cases c) (simp_all add: string_dtor_def curl_mime_free_def)

lemma header_chunk_configured:
  "header_chunk (configured env ctx c) = header_chunk ctx @ map c_str (headers_of c)"
  by (cases c) (simp_all add: config_simps)

lemma handle_protocols:
  "transfer_handle env ctx c CURLOPT_PROTOCOLS = Some (Protocols {CURLPROTO_HTTP, CURLPROTO_HTTPS})"
  by (cases c) (simp_all add: config_simps)


lemma handle_httpheader:
  "transfer_handle env ctx c CURLOPT_HTTPHEADER =
     (if headers_of c \<noteq> [] then Some (Slist (header_chunk ctx @ map c_str (headers_of c)))
      else curl ctx CURLOPT_HTTPHEADER)"
  by (cases c) (simp_all add: config_simps)

lemma handle_frame:
  "opt \<notin> options_set_by c \<Longrightarrow> transfer_handle env ctx c opt = curl ctx opt"
  by (cases c) (auto simp: config_simps common_options_def split: if_splits)

lemma handle_dom:
  "curl ctx opt \<noteq> None \<Longrightarrow> transfer_handle env ctx c opt \<noteq> None"
  by (cases c) (auto simp: config_simps split: if_splits)

lemma invoke_request:
  assumes "invoke env ctx c = Inr (r, ctx')"
  shows "\<exists>ctx0. perform_and_assemble is_content_type env (configured env ctx c) = Inr (r, ctx0)
           \<and> ctx' = ctx0\<lparr>curl := after_return c (curl ctx0)\<rparr>"
  using assms by (auto simp: invoke_eq request_eq split: sum.splits)

lemma invoke_Inr:
  assumes "invoke env ctx c = Inr (r, ctx')"
  shows "curl ctx' = after_return c (transfer_handle env ctx c)"
    and "header_chunk ctx' = header_chunk ctx @ map c_str (headers_of c)"
    and "\<not> inspectable (transfer_of env ctx c) \<Longrightarrow> r = response_t_init"
    and "inspectable (transfer_of env ctx c) \<Longrightarrow>
           status_code r = word_of_int (response_code (transfer_of env ctx c))
         \<and> headers r = map strip_crlf (header_lines (events (transfer_of env ctx c)))
         \<and> body r = body_bytes (events (transfer_of env ctx c))
         \<and> charset_encoding is_content_type (headers r) [] = Inr (encoding r)
         \<and> url r = (case effective_url (transfer_of env ctx c) of None \<Rightarrow> [] | Some u \<Rightarrow> u)"
proof -
  from invoke_request [OF assms] obtain ctx0 where
    p: "perform_and_assemble is_content_type env (configured env ctx c) = Inr (r, ctx0)"
    and c: "ctx' = ctx0\<lparr>curl := after_return c (curl ctx0)\<rparr>"
    by blast
  note f = perform_and_assemble_Inr [OF p, folded transfer_handle_def, folded transfer_of_def]
  from f c show "curl ctx' = after_return c (transfer_handle env ctx c)" by simp
  from f c show "header_chunk ctx' = header_chunk ctx @ map c_str (headers_of c)"
    by (simp add: header_chunk_configured)
  from f show "\<not> inspectable (transfer_of env ctx c) \<Longrightarrow> r = response_t_init" by simp
  from f show "inspectable (transfer_of env ctx c) \<Longrightarrow>
           status_code r = word_of_int (response_code (transfer_of env ctx c))
         \<and> headers r = map strip_crlf (header_lines (events (transfer_of env ctx c)))
         \<and> body r = body_bytes (events (transfer_of env ctx c))
         \<and> charset_encoding is_content_type (headers r) [] = Inr (encoding r)
         \<and> url r = (case effective_url (transfer_of env ctx c) of None \<Rightarrow> [] | Some u \<Rightarrow> u)"
    by auto
qed

lemma invoke_total:
  assumes "allocations_succeed env"
  shows "\<exists>r ctx'. invoke env ctx c = Inr (r, ctx')"
proof -
  from perform_and_assemble_total [OF assms] obtain r ctx0 where
    "perform_and_assemble is_content_type env (configured env ctx c) = Inr (r, ctx0)"
    by blast
  then show ?thesis
    by (simp add: invoke_eq request_eq)
qed

lemma deliver_headers:
  "deliver env es (hdrs, chunk) = Inr (hdrs', chunk') \<Longrightarrow>
   hdrs' = hdrs @ map strip_crlf (header_lines es)"
proof (induction es arbitrary: hdrs chunk)
  case Nil
  then show ?case by simp
next
  case (Cons e es)
  show ?case
  proof (cases e)
    case (Header_line l)
    with Cons.prems Cons.IH [of "hdrs @ [strip_crlf l]" chunk] show ?thesis
      by (simp add: header_callback_snd)
  next
    case (Body_chunk b)
    with Cons.prems obtain n c1 where "deliver env es (hdrs, c1) = Inr (hdrs', chunk')"
      by (auto split: sum.splits)
    from Cons.IH [OF this] Body_chunk show ?thesis
      by simp
  qed
qed

text \<open>Unfolding the operations on concrete arguments.\<close>

lemmas eval_simps =
  env_with_def fresh_context_def transfer_failed_def get_def head_def post_def post_form_def
  put_def patch_def del_def update_def set_url_options_def set_headers_def encode_url_def
  request_def request_setup_def assemble_def user_data_ctor_def write_user_data_def
  header_callback_def curl_easy_setopt_def curl_slist_append_def c_str_def
  charset_encoding_def is_content_type_def tolower_def starts_with_def ends_with_def
  pop_back_def rfind_def find_char_def substr_def response_t_init_def inspectable_def
  transfer_of_def transfer_handle_def configured_update_def set_postfields_def strip_crlf_def
  string_dtor_def curl_mime_free_def Let_def

lemma transfer_of_env_with: "transfer_of (env_with t) ctx c = t"
  by (simp add: transfer_of_def env_with_def)

lemma allocations_succeed_env_with: "allocations_succeed (env_with t)"
  by (simp add: allocations_succeed_def env_with_def)

lemma get_v001_Inr:
  assumes "get_v001 env ctx u hs = Inr (r, ctx')"
  shows "curl ctx' = curl (request_setup (configured_v001 ctx u hs))"
    and "header_chunk ctx' = header_chunk ctx @ map c_str hs"
    and "\<not> inspectable (transfer_v001 env ctx u hs) \<Longrightarrow> r = response_t_init"
    and "inspectable (transfer_v001 env ctx u hs) \<Longrightarrow>
           status_code r = word_of_int (response_code (transfer_v001 env ctx u hs))
         \<and> headers r = map strip_crlf (header_lines (events (transfer_v001 env ctx u hs)))
         \<and> body r = body_bytes (events (transfer_v001 env ctx u hs))
         \<and> charset_encoding is_content_type_v001 (headers r) [] = Inr (encoding r)
         \<and> url r = (case effective_url (transfer_v001 env ctx u hs) of None \<Rightarrow> [] | Some u \<Rightarrow> u)"
proof -
  from assms have "perform_and_assemble is_content_type_v001 env (configured_v001 ctx u hs) = Inr (r, ctx')"
    by (simp add: get_v001_eq)
  note f = perform_and_assemble_Inr [OF this, folded transfer_v001_def]
  from f show "curl ctx' = curl (request_setup (configured_v001 ctx u hs))" by simp
  from f show "header_chunk ctx' = header_chunk ctx @ map c_str hs"
    by (simp add: configured_v001_def set_headers_simps)
  from f show "\<not> inspectable (transfer_v001 env ctx u hs) \<Longrightarrow> r = response_t_init" by simp
  from f show "inspectable (transfer_v001 env ctx u hs) \<Longrightarrow>
           status_code r = word_of_int (response_code (transfer_v001 env ctx u hs))
         \<and> headers r = map strip_crlf (header_lines (events (transfer_v001 env ctx u hs)))
         \<and> body r = body_bytes (events (transfer_v001 env ctx u hs))
         \<and> charset_encoding is_content_type_v001 (headers r) [] = Inr (encoding r)
         \<and> url r = (case effective_url (transfer_v001 env ctx u hs) of None \<Rightarrow> [] | Some u \<Rightarrow> u)"
    by auto
qed

lemma get_v001_total:
  "allocations_succeed env \<Longrightarrow> \<exists>r ctx'. get_v001 env ctx u hs = Inr (r, ctx')"
  by (simp add: get_v001_eq perform_and_assemble_total)

lemma transfer_v001_env_with: "transfer_v001 (env_with t) ctx u hs = t"
  by (simp add: transfer_v001_def env_with_def)




lemma c_str_id: "CHR 0x00 \<notin> set s \<Longrightarrow> c_str s = s"
  by (auto simp: c_str_def)

lemma invoke_response_headers:
  assumes "invoke env ctx c = Inr (r, ctx')"
  shows "response_headers ctx' =
     (if inspectable (transfer_of env ctx c) then []
      else map strip_crlf (header_lines (events (transfer_of env ctx c))))"
proof -
  from invoke_request [OF assms] obtain ctx0 where
    p: "perform_and_assemble is_content_type env (configured env ctx c) = Inr (r, ctx0)"
    and c: "ctx' = ctx0\<lparr>curl := after_return c (curl ctx0)\<rparr>"
    by blast
  from perform_and_assemble_Inr [OF p, folded transfer_handle_def, folded transfer_of_def] c
  show ?thesis by (simp split: if_splits)
qed

lemma request_setup_ignores_accumulator:
  "request_setup (ctx\<lparr>response_headers := stale\<rparr>) = request_setup ctx"
  by (simp add: request_setup_def Let_def)

lemma request_ignores_accumulator:
  "request env (ctx\<lparr>response_headers := stale\<rparr>) = request env ctx"
  unfolding request_eq perform_and_assemble_def request_setup_ignores_accumulator ..

lemma get_ignores_accumulator:
  "get env (ctx\<lparr>response_headers := stale\<rparr>) u hs = get env ctx u hs"
proof -
  have "set_headers (set_url_options env (ctx\<lparr>response_headers := stale\<rparr>) u) hs
      = (set_headers (set_url_options env ctx u) hs)\<lparr>response_headers := stale\<rparr>"
    by (simp add: set_headers_def set_url_options_def Let_def)
  then show ?thesis
    by (simp add: get_def Let_def request_ignores_accumulator)
qed

lemma handle_nobody_after_head:
  assumes "invoke env1 ctx (Head u hs) = Inr (r1, ctx1)"
  shows "transfer_handle env2 ctx1 c2 CURLOPT_NOBODY =
     (if CURLOPT_MIMEPOST \<in> options_set_by c2 then Some (Long 0) else Some (Long 1))"
proof -
  from invoke_Inr(1) [OF assms] have "curl ctx1 CURLOPT_NOBODY = Some (Long 1)"
    by (simp add: config_simps)
  then show ?thesis
    by (cases c2) (simp_all add: config_simps common_options_def)
qed

lemma handle_custom_method:
  "custom_method_of c = Some m \<Longrightarrow> transfer_handle env ctx c CURLOPT_CUSTOMREQUEST = Some (Str m)"
  by (cases c) (auto simp: config_simps)

lemma handle_payload:
  "payload_of c = Some b \<Longrightarrow>
   transfer_handle env ctx c CURLOPT_POSTFIELDS =
     (if custom_method_of c = None then Some (Postfields (c_str b)) else Some Postfields_dangling)"
  by (cases c) (auto simp: config_simps split: if_splits)

lemma payload_after_return:
  assumes "invoke env ctx c = Inr (r, ctx')" and "payload_of c = Some b"
  shows "curl ctx' CURLOPT_POSTFIELDS = Some Postfields_dangling"
  using invoke_Inr(1) [OF assms(1)] handle_payload [OF assms(2), of env ctx] assms(2)
  by (cases c) (simp_all add: string_dtor_def split: if_splits)

lemma customrequest_not_set:
  "custom_method_of c = None \<Longrightarrow> CURLOPT_CUSTOMREQUEST \<notin> options_set_by c"
  by (cases c) (simp_all add: common_options_def)

lemma postfields_not_set:
  "payload_of c = None \<Longrightarrow> CURLOPT_POSTFIELDS \<notin> options_set_by c"
  by (cases c) (simp_all add: common_options_def split: if_splits)

lemma handle_httpheader_v001:
  "curl (request_setup (configured_v001 ctx u hs)) CURLOPT_HTTPHEADER =
     (if hs \<noteq> [] then Some (Slist (header_chunk ctx @ map c_str hs))
      else curl ctx CURLOPT_HTTPHEADER)"
  by (simp add: configured_v001_def config_simps)

lemma map_c_str_id: "\<forall>h\<in>set hs. CHR 0x00 \<notin> set h \<Longrightarrow> map c_str hs = hs"
  by (induction hs) (simp_all add: c_str_id)

lemma occurs_at_Cons_Suc: "occurs_at p (c # cs) (Suc k) = occurs_at p cs k"
  by (simp add: occurs_at_def)

lemma occurs_at_0: "occurs_at p s 0 = starts_with s p"
proof
  assume "occurs_at p s 0"
  then show "starts_with s p" by (simp add: occurs_at_def starts_with_def)
next
  assume a: "starts_with s p"
  then have "length (take (length p) s) = length p"
    by (simp only: starts_with_def)
  then have "length p \<le> length s" by simp
  with a show "occurs_at p s 0" by (simp add: occurs_at_def starts_with_def)
qed

lemma rfind_from_None:
  "(\<And>k. \<not> occurs_at p s k) \<Longrightarrow> rfind_from p s i = None"
proof (induction s arbitrary: i)
  case Nil
  from Nil [of 0] show ?case by (simp add: occurs_at_def)
next
  case (Cons c cs)
  have "\<not> occurs_at p cs k" for k
    using Cons.prems [of "Suc k"] by (simp add: occurs_at_Cons_Suc)
  then have "rfind_from p cs (Suc i) = None"
    by (rule Cons.IH)
  moreover from Cons.prems [of 0] have "\<not> starts_with (c # cs) p"
    by (simp add: occurs_at_0)
  ultimately show ?case by simp
qed

lemma rfind_from_last:
  "occurs_at p s k \<Longrightarrow> (\<And>j. k < j \<Longrightarrow> \<not> occurs_at p s j) \<Longrightarrow> rfind_from p s i = Some (i + k)"
proof (induction s arbitrary: i k)
  case Nil
  then show ?case by (simp add: occurs_at_def)
next
  case (Cons c cs)
  show ?case
  proof (cases k)
    case 0
    have "\<not> occurs_at p cs j" for j
      using Cons.prems(2) [of "Suc j"] 0 by (simp add: occurs_at_Cons_Suc)
    then have "rfind_from p cs (Suc i) = None"
      by (rule rfind_from_None)
    moreover from Cons.prems(1) 0 have "starts_with (c # cs) p"
      by (simp add: occurs_at_0)
    ultimately show ?thesis using 0 by simp
  next
    case (Suc k')
    with Cons.prems(1) have a: "occurs_at p cs k'"
      by (simp add: occurs_at_Cons_Suc)
    have "\<not> occurs_at p cs j" if "k' < j" for j
      using Cons.prems(2) [of "Suc j"] that Suc by (simp add: occurs_at_Cons_Suc)
    with a have "rfind_from p cs (Suc i) = Some (Suc i + k')"
      by (rule Cons.IH)
    with Suc show ?thesis by simp
  qed
qed

lemma find_from_char_None: "c \<notin> set s \<Longrightarrow> find_from [c] s i = None"
  by (induction s arbitrary: i) (auto simp: starts_with_def)

lemma find_first:
  "(\<And>h. h \<in> set pref \<Longrightarrow> \<not> P h) \<Longrightarrow> P x \<Longrightarrow> List.find P (pref @ x # suf) = Some x"
  by (induction pref) simp_all

lemma find_none: "(\<And>h. h \<in> set hs \<Longrightarrow> \<not> P h) \<Longrightarrow> List.find P hs = None"
  by (induction hs) simp_all

lemma occurs_at_append_left:
  "length a \<le> j \<Longrightarrow> occurs_at p (a @ s) j = occurs_at p s (j - length a)"
  by (auto simp: occurs_at_def)

lemma charset_no_overlap:
  assumes "occurs_at ''charset='' (''charset='' @ b) k" and "0 < k"
  shows "8 \<le> k \<and> occurs_at ''charset='' b (k - 8)"
proof -
  have "k \<noteq> 1" "k \<noteq> 2" "k \<noteq> 3" "k \<noteq> 4" "k \<noteq> 5" "k \<noteq> 6" "k \<noteq> 7"
    using assms(1) by (auto simp: occurs_at_def)
  with assms(2) have k: "8 \<le> k" by arith
  have l: "length ''charset='' = 8" by simp
  from k have "occurs_at ''charset='' (''charset='' @ b) k =
      occurs_at ''charset='' b (k - length ''charset='')"
    by (intro occurs_at_append_left) simp
  with assms(1) have "occurs_at ''charset='' b (k - length ''charset='')"
    by blast
  then have "occurs_at ''charset='' b (k - 8)"
    by (simp only: l)
  with k show ?thesis by blast
qed

lemma rfind_charset:
  assumes "\<And>j. \<not> occurs_at ''charset='' b j"
  shows "rfind (a @ ''charset='' @ b) ''charset='' = Some (length a)"
proof -
  have o: "occurs_at ''charset='' (a @ ''charset='' @ b) (length a)"
    by (simp add: occurs_at_def)
  have n: "\<not> occurs_at ''charset='' (a @ ''charset='' @ b) j" if "length a < j" for j
  proof
    assume "occurs_at ''charset='' (a @ ''charset='' @ b) j"
    with that have "occurs_at ''charset='' (''charset='' @ b) (j - length a)"
      by (simp add: occurs_at_append_left)
    from charset_no_overlap [OF this] that assms show False by simp
  qed
  from rfind_from_last [OF o n, of 0] show ?thesis
    by (simp add: rfind_def)
qed

lemma charset_encoding_first:
  assumes "\<And>h. h \<in> set pref \<Longrightarrow> \<not> is_ct h" and "is_ct ct"
  shows "charset_encoding is_ct (pref @ ct # suf) e0 =
     (case rfind ct ''charset='' of
        None \<Rightarrow> Inr e0
      | Some first \<Rightarrow> substr ct (first + 8) (find_char ct CHR '';'' first))"
  unfolding charset_encoding_def Let_def
  using find_first [of pref is_ct ct suf, OF assms]
  by simp

lemma charset_encoding_none:
  assumes "\<And>h. h \<in> set hs \<Longrightarrow> \<not> is_ct h"
  shows "charset_encoding is_ct hs e0 = Inr e0"
  using find_none [of hs is_ct, OF assms]
  by (simp add: charset_encoding_def)

lemma charset_encoding_no_charset:
  assumes "\<And>h. h \<in> set pref \<Longrightarrow> \<not> is_ct h" and "is_ct ct"
    and "\<And>j. \<not> occurs_at ''charset='' ct j"
  shows "charset_encoding is_ct (pref @ ct # suf) e0 = Inr e0"
  using charset_encoding_first [of pref is_ct ct suf e0, OF assms(1,2)]
    rfind_from_None [of "''charset=''" ct 0, OF assms(3)]
  by (simp add: rfind_def)

lemma charset_encoding_to_end:
  assumes "\<And>h. h \<in> set pref \<Longrightarrow> \<not> is_ct h" and "is_ct (a @ ''charset='' @ b)"
    and "\<And>j. \<not> occurs_at ''charset='' b j" and "CHR '';'' \<notin> set b"
  shows "charset_encoding is_ct (pref @ (a @ ''charset='' @ b) # suf) e0 = Inr b"
proof -
  have d: "drop (length a) (a @ ''charset='' @ b) = ''charset='' @ b"
    by simp
  from assms(4) have "CHR '';'' \<notin> set (''charset='' @ b)"
    by simp
  then have "find_from '';'' (''charset='' @ b) (length a) = None"
    by (rule find_from_char_None)
  then have "find_char (a @ ''charset='' @ b) CHR '';'' (length a) = None"
    unfolding find_char_def d .
  with charset_encoding_first [of pref is_ct "a @ ''charset='' @ b" suf e0, OF assms(1,2)]
    rfind_charset [of b a, OF assms(3)]
  show ?thesis
    by (simp add: substr_def)
qed

lemma is_content_type_iff:
  "is_content_type h = (map tolower (take 13 h) = ''content-type:'')"
proof -
  have l: "length ''content-type:'' = 13" by simp
  show ?thesis
    unfolding is_content_type_def Let_def starts_with_def take_map l ..
qed

lemma encoding_rule_holds:
  assumes e: "charset_encoding is_ct (headers r) [] = Inr (encoding r)"
  shows "encoding_rule is_ct r"
proof -
  have k1: "(\<forall>h\<in>set (headers r). \<not> is_ct h) \<longrightarrow> encoding r = []"
  proof
    assume "\<forall>h\<in>set (headers r). \<not> is_ct h"
    then have "charset_encoding is_ct (headers r) [] = Inr []"
      by (intro charset_encoding_none) blast
    with e show "encoding r = []" by simp
  qed
  have k2: "encoding r = []"
    if "headers r = pref @ ct # suf
          \<and> (\<forall>h\<in>set pref. \<not> is_ct h) \<and> is_ct ct
          \<and> (\<forall>j. \<not> occurs_at ''charset='' ct j)" for pref ct suf
  proof -
    from that have "charset_encoding is_ct (pref @ ct # suf) [] = Inr []"
      by (intro charset_encoding_no_charset) blast+
    with that e show ?thesis by simp
  qed
  have k3: "encoding r = b"
    if "headers r = pref @ (a @ ''charset='' @ b) # suf
          \<and> (\<forall>h\<in>set pref. \<not> is_ct h) \<and> is_ct (a @ ''charset='' @ b)
          \<and> (\<forall>j. \<not> occurs_at ''charset='' b j) \<and> CHR '';'' \<notin> set b" for pref a b suf
  proof -
    from that have "charset_encoding is_ct (pref @ (a @ ''charset='' @ b) # suf) [] = Inr b"
      by (intro charset_encoding_to_end) blast+
    with that e show ?thesis by simp
  qed
  show ?thesis
    unfolding encoding_rule_def using k1 k2 k3 by (intro conjI allI impI) blast+
qed

lemma encoding_rule_example:
  assumes "encoding_rule is_content_type r"
    and h: "headers r = pref @ (name @ '' text/html; charset=UTF-8'') # suf
          \<and> map tolower name = ''content-type:''
          \<and> (\<forall>h\<in>set pref. \<not> is_content_type h)"
  shows "encoding r = ''UTF-8''"
proof -
  from h have "length (map tolower name) = length ''content-type:''"
    by simp
  then have l: "length name = 13" by simp
  have s: "name @ '' text/html; charset=UTF-8'' = (name @ '' text/html; '') @ ''charset='' @ ''UTF-8''"
    by simp
  from h l have i: "is_content_type ((name @ '' text/html; '') @ ''charset='' @ ''UTF-8'')"
    by (simp add: is_content_type_iff)
  have n: "\<forall>j. \<not> occurs_at ''charset='' ''UTF-8'' j"
    by (simp add: occurs_at_def)
  have c: "CHR '';'' \<notin> set ''UTF-8''" by simp
  from assms(1) have "\<forall>pref a b suf. headers r = pref @ (a @ ''charset='' @ b) # suf
            \<and> (\<forall>h\<in>set pref. \<not> is_content_type h) \<and> is_content_type (a @ ''charset='' @ b)
            \<and> (\<forall>j. \<not> occurs_at ''charset='' b j) \<and> CHR '';'' \<notin> set b \<longrightarrow> encoding r = b"
    unfolding encoding_rule_def by (elim conjE)
  from this [rule_format, of pref "name @ '' text/html; ''" "''UTF-8''" suf] h i n c
  show ?thesis
    unfolding s by blast
qed

lemma is_content_type_v001_iff:
  "is_content_type_v001 h = (take 13 h = ''content-type:'')"
proof -
  have l: "length ''content-type:'' = 13" by simp
  show ?thesis
    unfolding is_content_type_v001_def starts_with_def l ..
qed

section \<open>The encoding of a response\<close>

text \<open>
  Claim C1, as the code has it. For a response that a public operation of url.cxx builds
  from an inspectable transfer, the encoding follows \<open>encoding_rule\<close> for the first header
  line that starts with \<^verbatim>\<open>content-type:\<close>, compared without regard to letter case: it is
  empty when there is no such line or when that line does not contain \<^verbatim>\<open>charset=\<close> (as
  written, in lower case), and it is all that follows the last \<^verbatim>\<open>charset=\<close> of that line
  when no semicolon follows it. In particular a first content type line
  \<^verbatim>\<open>content-type: text/html; charset=UTF-8\<close> whose header name is in any letter case gives
  the encoding \<^verbatim>\<open>UTF-8\<close>. The \<^verbatim>\<open>get\<close> of url.cpp follows the same rule with a comparison
  that regards letter case: its line starts with \<^verbatim>\<open>content-type:\<close> in lower case. What
  the encoding is when a semicolon follows \<^verbatim>\<open>charset=\<close> is left open here.
\<close>

theorem encoding_from_content_type_header:
  "(\<forall>r ctx'. invoke env ctx c = Inr (r, ctx') \<and> inspectable (transfer_of env ctx c) \<longrightarrow>
      encoding_rule is_content_type r
      \<and> (\<forall>pref name suf. headers r = pref @ (name @ '' text/html; charset=UTF-8'') # suf
            \<and> map tolower name = ''content-type:''
            \<and> (\<forall>h\<in>set pref. \<not> is_content_type h) \<longrightarrow> encoding r = ''UTF-8''))
   \<and> (\<forall>r ctx'. get_v001 env ctx u hs = Inr (r, ctx') \<and> inspectable (transfer_v001 env ctx u hs) \<longrightarrow>
      encoding_rule is_content_type_v001 r)
   \<and> (\<forall>h. is_content_type h = (map tolower (take 13 h) = ''content-type:''))
   \<and> (\<forall>h. is_content_type_v001 h = (take 13 h = ''content-type:''))"
proof -
  have k1: "encoding_rule is_content_type r
      \<and> (\<forall>pref name suf. headers r = pref @ (name @ '' text/html; charset=UTF-8'') # suf
            \<and> map tolower name = ''content-type:''
            \<and> (\<forall>h\<in>set pref. \<not> is_content_type h) \<longrightarrow> encoding r = ''UTF-8'')"
    if "invoke env ctx c = Inr (r, ctx') \<and> inspectable (transfer_of env ctx c)" for r ctx'
  proof -
    from that invoke_Inr(4) [of env ctx c r ctx']
    have "charset_encoding is_content_type (headers r) [] = Inr (encoding r)"
      by blast
    then have er: "encoding_rule is_content_type r"
      by (rule encoding_rule_holds)
    have "\<forall>pref name suf. headers r = pref @ (name @ '' text/html; charset=UTF-8'') # suf
            \<and> map tolower name = ''content-type:''
            \<and> (\<forall>h\<in>set pref. \<not> is_content_type h) \<longrightarrow> encoding r = ''UTF-8''"
      by (intro allI impI) (rule encoding_rule_example [OF er])
    with er show ?thesis
      by (rule conjI)
  qed
  have k2: "encoding_rule is_content_type_v001 r"
    if "get_v001 env ctx u hs = Inr (r, ctx') \<and> inspectable (transfer_v001 env ctx u hs)" for r ctx'
  proof -
    from that get_v001_Inr(4) [of env ctx u hs r ctx']
    have "charset_encoding is_content_type_v001 (headers r) [] = Inr (encoding r)"
      by blast
    then show ?thesis
      by (rule encoding_rule_holds)
  qed
  have c1: "\<forall>r ctx'. invoke env ctx c = Inr (r, ctx') \<and> inspectable (transfer_of env ctx c) \<longrightarrow>
      encoding_rule is_content_type r
      \<and> (\<forall>pref name suf. headers r = pref @ (name @ '' text/html; charset=UTF-8'') # suf
            \<and> map tolower name = ''content-type:''
            \<and> (\<forall>h\<in>set pref. \<not> is_content_type h) \<longrightarrow> encoding r = ''UTF-8'')"
    by (intro allI impI) (rule k1)
  have c2: "\<forall>r ctx'. get_v001 env ctx u hs = Inr (r, ctx') \<and> inspectable (transfer_v001 env ctx u hs) \<longrightarrow>
      encoding_rule is_content_type_v001 r"
    by (intro allI impI) (rule k2)
  have c3: "\<forall>h. is_content_type h = (map tolower (take 13 h) = ''content-type:'')"
    by (intro allI) (rule is_content_type_iff)
  have c4: "\<forall>h. is_content_type_v001 h = (take 13 h = ''content-type:'')"
    by (intro allI) (rule is_content_type_v001_iff)
  show ?thesis
    by (intro conjI) (rule c1 c2 c3 c4)+
qed

theorem encoding_from_content_type_header_witness:
  "inspectable (transfer_of (env_with transfer_html) fresh_context (Get ''example.com'' []))
   \<and> map tolower ''Content-Type:'' = ''content-type:''
   \<and> \<not> is_content_type ''HTTP/1.1 200 OK''
   \<and> (\<exists>r ctx'. invoke (env_with transfer_html) fresh_context (Get ''example.com'' []) = Inr (r, ctx')
        \<and> headers r = [''HTTP/1.1 200 OK''] @ (''Content-Type:'' @ '' text/html; charset=UTF-8'') # ['''']
        \<and> encoding r = ''UTF-8'')
   \<and> inspectable (transfer_v001 (env_with transfer_example) fresh_context ''example.com'' [])
   \<and> (\<exists>r ctx'. get_v001 (env_with transfer_example) fresh_context ''example.com'' [] = Inr (r, ctx')
        \<and> (\<forall>h\<in>set (headers r). \<not> is_content_type_v001 h)
        \<and> encoding r = '''')"
proof -
  let ?E = "env_with transfer_html"
  have i: "inspectable (transfer_of ?E fresh_context (Get ''example.com'' []))"
    by (simp add: transfer_of_env_with inspectable_def transfer_html_def)
  from invoke_total [OF allocations_succeed_env_with] obtain r ctx' where
    a: "invoke ?E fresh_context (Get ''example.com'' []) = Inr (r, ctx')"
    by blast
  from invoke_Inr(4) [OF a i]
  have h: "headers r = [''HTTP/1.1 200 OK''] @ (''Content-Type:'' @ '' text/html; charset=UTF-8'') # ['''']"
    by (simp add: transfer_of_env_with transfer_html_def strip_crlf_def)
  have t: "map tolower ''Content-Type:'' = ''content-type:''"
    by (simp add: tolower_def)
  have n0: "\<not> is_content_type ''HTTP/1.1 200 OK''"
    by (simp add: is_content_type_def tolower_def starts_with_def)
  then have n: "\<forall>h\<in>set [''HTTP/1.1 200 OK'']. \<not> is_content_type h"
    by simp
  note example = encoding_from_content_type_header [where env = ?E and ctx = fresh_context
      and c = "Get ''example.com'' []", THEN conjunct1, rule_format, OF conjI, OF a i,
      THEN conjunct2, rule_format]
  have "encoding r = ''UTF-8''"
    by (rule example [of "[''HTTP/1.1 200 OK'']" "''Content-Type:''" "['''']"]) (intro conjI h t n)
  with a h have w1: "\<exists>r ctx'. invoke ?E fresh_context (Get ''example.com'' []) = Inr (r, ctx')
        \<and> headers r = [''HTTP/1.1 200 OK''] @ (''Content-Type:'' @ '' text/html; charset=UTF-8'') # ['''']
        \<and> encoding r = ''UTF-8''"
    by (intro exI conjI)
  let ?F = "env_with transfer_example"
  have j: "inspectable (transfer_v001 ?F fresh_context ''example.com'' [])"
    by (simp add: transfer_v001_env_with inspectable_def transfer_example_def)
  from get_v001_total [OF allocations_succeed_env_with] obtain r2 ctx2 where
    b: "get_v001 ?F fresh_context ''example.com'' [] = Inr (r2, ctx2)"
    by blast
  from get_v001_Inr(4) [OF b j]
  have h2: "headers r2 = [''HTTP/1.1 200 OK'', ''Content-Length: 5'', ''X-Last: kept as it is'', '''']"
    by (simp add: transfer_v001_env_with transfer_example_def strip_crlf_def)
  then have n2: "\<forall>h\<in>set (headers r2). \<not> is_content_type_v001 h"
    by (simp add: is_content_type_v001_def starts_with_def)
  note rule2 = encoding_from_content_type_header [where env = ?F and ctx = fresh_context
      and u = "''example.com''" and hs = "[]", THEN conjunct2, THEN conjunct1, rule_format,
      OF conjI, OF b j, unfolded encoding_rule_def, THEN conjunct1]
  from rule2 n2 have "encoding r2 = ''''"
    by (rule mp)
  with b n2 have w2: "\<exists>r ctx'. get_v001 ?F fresh_context ''example.com'' [] = Inr (r, ctx')
        \<and> (\<forall>h\<in>set (headers r). \<not> is_content_type_v001 h)
        \<and> encoding r = ''''"
    by (intro exI conjI)
  from i t n0 w1 j w2 show ?thesis by (intro conjI)
qed

text \<open>
  The claim as stated fails in three ways. With a parameter after the character set the
  encoding runs past the semicolon: \<^verbatim>\<open>substr(first + 8, last)\<close> takes the position of the
  semicolon for a length. A content type line in capitals throughout gives the empty
  encoding, since \<^verbatim>\<open>charset=\<close> is searched as written. And the \<^verbatim>\<open>get\<close> of url.cpp does
  not find a header name that is not in lower case.
\<close>

theorem encoding_differs_from_the_claim:
  "(case get (env_with transfer_boundary) fresh_context ''example.com'' [] of
      Inl e \<Rightarrow> None
    | Inr (r, ctx') \<Rightarrow> Some (encoding r)) = Some ''UTF-8; boundary=frontier''
   \<and> (case get (env_with transfer_capitals) fresh_context ''example.com'' [] of
      Inl e \<Rightarrow> None
    | Inr (r, ctx') \<Rightarrow> Some (encoding r)) = Some ''''
   \<and> (case get_v001 (env_with transfer_html) fresh_context ''example.com'' [] of
      Inl e \<Rightarrow> None
    | Inr (r, ctx') \<Rightarrow> Some (encoding r)) = Some ''''"
  by (simp add: eval_simps get_v001_def is_content_type_v001_def transfer_boundary_def
      transfer_capitals_def transfer_html_def)

section \<open>The request header list\<close>

text \<open>
  Claim C2, as the code has it. The header lines a call supplies are appended, in order
  and each as its C string, to the header list of the worker, and no call frees or
  shortens that list. When a call supplies a non-empty header list, the list attached to
  the handle for its transfer is the list of the worker as it was before the call
  followed by the lines of the call; a call without header lines leaves the list and the
  attachment as they are. The entries are freed at the teardown of the worker only, which
  frees all of them. The \<^verbatim>\<open>get\<close> of url.cpp does the same.
\<close>

theorem header_list_accumulates:
  "(headers_of c \<noteq> [] \<longrightarrow>
      transfer_handle env ctx c CURLOPT_HTTPHEADER =
        Some (Slist (header_chunk ctx @ map c_str (headers_of c))))
   \<and> (headers_of c = [] \<longrightarrow>
      transfer_handle env ctx c CURLOPT_HTTPHEADER = curl ctx CURLOPT_HTTPHEADER)
   \<and> (\<forall>r ctx'. invoke env ctx c = Inr (r, ctx') \<longrightarrow>
      header_chunk ctx' = header_chunk ctx @ map c_str (headers_of c)
      \<and> curl ctx' CURLOPT_HTTPHEADER = transfer_handle env ctx c CURLOPT_HTTPHEADER)
   \<and> (hs \<noteq> [] \<longrightarrow>
      curl (request_setup (configured_v001 ctx u hs)) CURLOPT_HTTPHEADER =
        Some (Slist (header_chunk ctx @ map c_str hs)))
   \<and> (\<forall>r ctx'. get_v001 env ctx u hs = Inr (r, ctx') \<longrightarrow>
      header_chunk ctx' = header_chunk ctx @ map c_str hs)
   \<and> ((\<forall>h\<in>set hs. CHR 0x00 \<notin> set h) \<longrightarrow> map c_str hs = hs)
   \<and> fst (curl_thread_local_dtor ctx) = header_chunk ctx"
proof -
  have k1: "headers_of c \<noteq> [] \<longrightarrow>
      transfer_handle env ctx c CURLOPT_HTTPHEADER =
        Some (Slist (header_chunk ctx @ map c_str (headers_of c)))"
    by (simp add: handle_httpheader)
  have k2: "headers_of c = [] \<longrightarrow>
      transfer_handle env ctx c CURLOPT_HTTPHEADER = curl ctx CURLOPT_HTTPHEADER"
    by (simp add: handle_httpheader)
  have k3: "\<forall>r ctx'. invoke env ctx c = Inr (r, ctx') \<longrightarrow>
      header_chunk ctx' = header_chunk ctx @ map c_str (headers_of c)
      \<and> curl ctx' CURLOPT_HTTPHEADER = transfer_handle env ctx c CURLOPT_HTTPHEADER"
    using invoke_Inr(1,2) [of env ctx c] by (simp add: after_return_frame)
  have k4: "hs \<noteq> [] \<longrightarrow>
      curl (request_setup (configured_v001 ctx u hs)) CURLOPT_HTTPHEADER =
        Some (Slist (header_chunk ctx @ map c_str hs))"
    by (simp add: handle_httpheader_v001)
  have k5: "\<forall>r ctx'. get_v001 env ctx u hs = Inr (r, ctx') \<longrightarrow>
      header_chunk ctx' = header_chunk ctx @ map c_str hs"
    using get_v001_Inr(2) [of env ctx u hs] by blast
  have k6: "(\<forall>h\<in>set hs. CHR 0x00 \<notin> set h) \<longrightarrow> map c_str hs = hs"
    using map_c_str_id [of hs] by blast
  have k7: "fst (curl_thread_local_dtor ctx) = header_chunk ctx"
    by (simp add: curl_thread_local_dtor_def)
  show ?thesis
    by (intro conjI) (rule k1 k2 k3 k4 k5 k6 k7)+
qed

theorem header_list_accumulates_witness:
  "headers_of (Get ''example.com'' [''X-Second: 2'']) \<noteq> []
   \<and> transfer_handle (env_with transfer_example) (fresh_context\<lparr>header_chunk := [''X-First: 1'']\<rparr>)
        (Get ''example.com'' [''X-Second: 2'']) CURLOPT_HTTPHEADER
       = Some (Slist [''X-First: 1'', ''X-Second: 2''])
   \<and> (\<exists>r ctx'. invoke (env_with transfer_example) (fresh_context\<lparr>header_chunk := [''X-First: 1'']\<rparr>)
        (Get ''example.com'' [''X-Second: 2'']) = Inr (r, ctx')
        \<and> header_chunk ctx' = [''X-First: 1'', ''X-Second: 2''])
   \<and> curl (request_setup (configured_v001 (fresh_context\<lparr>header_chunk := [''X-First: 1'']\<rparr>)
        ''example.com'' [''X-Second: 2''])) CURLOPT_HTTPHEADER
       = Some (Slist [''X-First: 1'', ''X-Second: 2''])
   \<and> (\<exists>r ctx'. get_v001 (env_with transfer_example) (fresh_context\<lparr>header_chunk := [''X-First: 1'']\<rparr>)
        ''example.com'' [''X-Second: 2''] = Inr (r, ctx')
        \<and> header_chunk ctx' = [''X-First: 1'', ''X-Second: 2''])
   \<and> headers_of (Head ''example.com'' []) = []
   \<and> transfer_handle (env_with transfer_example)
        (fresh_context\<lparr>curl := [CURLOPT_HTTPHEADER \<mapsto> Slist [''X-First: 1'']], header_chunk := [''X-First: 1'']\<rparr>)
        (Head ''example.com'' []) CURLOPT_HTTPHEADER = Some (Slist [''X-First: 1''])
   \<and> fst (curl_thread_local_dtor (fresh_context\<lparr>header_chunk := [''X-First: 1'']\<rparr>)) = [''X-First: 1'']"
proof -
  let ?E = "env_with transfer_example"
  let ?ctx = "fresh_context\<lparr>header_chunk := [''X-First: 1'']\<rparr>"
  let ?ctx2 = "fresh_context\<lparr>curl := [CURLOPT_HTTPHEADER \<mapsto> Slist [''X-First: 1'']], header_chunk := [''X-First: 1'']\<rparr>"
  from invoke_total [OF allocations_succeed_env_with] obtain r1 c1 where
    a: "invoke ?E ?ctx (Get ''example.com'' [''X-Second: 2'']) = Inr (r1, c1)"
    by blast
  from get_v001_total [OF allocations_succeed_env_with] obtain r2 c2 where
    b: "get_v001 ?E ?ctx ''example.com'' [''X-Second: 2''] = Inr (r2, c2)"
    by blast
  note t1 = header_list_accumulates [where env = ?E and ctx = ?ctx
      and c = "Get ''example.com'' [''X-Second: 2'']" and u = "''example.com''"
      and hs = "[''X-Second: 2'']"]
  note t2 = header_list_accumulates [where env = ?E and ctx = ?ctx2
      and c = "Head ''example.com'' []" and u = "''example.com''" and hs = "[]"]
  from a t1 have a': "header_chunk c1 = [''X-First: 1'', ''X-Second: 2'']"
    by (simp add: fresh_context_def c_str_def)
  from b t1 have b': "header_chunk c2 = [''X-First: 1'', ''X-Second: 2'']"
    by (simp add: fresh_context_def c_str_def)
  from t1 have c: "transfer_handle ?E ?ctx (Get ''example.com'' [''X-Second: 2'']) CURLOPT_HTTPHEADER
       = Some (Slist [''X-First: 1'', ''X-Second: 2''])"
    and d: "curl (request_setup (configured_v001 ?ctx ''example.com'' [''X-Second: 2''])) CURLOPT_HTTPHEADER
       = Some (Slist [''X-First: 1'', ''X-Second: 2''])"
    and e: "fst (curl_thread_local_dtor ?ctx) = [''X-First: 1'']"
    by (simp_all add: fresh_context_def c_str_def)
  from t2 have f: "transfer_handle ?E ?ctx2 (Head ''example.com'' []) CURLOPT_HTTPHEADER
       = Some (Slist [''X-First: 1''])"
    by (simp add: fresh_context_def)
  from a a' b b' c d e f show ?thesis
    by auto
qed

text \<open>
  The claim as stated fails: the list is not freed before it is rebuilt, so the list
  attached for the second of two calls holds the line of the first call as well.
\<close>

theorem second_call_sends_headers_of_first:
  "(case invoke (env_with transfer_example) fresh_context (Get ''example.com'' [''X-First: 1'']) of
      Inl e \<Rightarrow> None
    | Inr (r, ctx1) \<Rightarrow>
        transfer_handle (env_with transfer_example) ctx1 (Get ''example.com'' [''X-Second: 2''])
          CURLOPT_HTTPHEADER)
   = Some (Slist [''X-First: 1'', ''X-Second: 2''])
   \<and> (case invoke_all fresh_context
        [(env_with transfer_example, Get ''example.com'' [''X-First: 1'']),
         (env_with transfer_example, Get ''example.com'' [''X-Second: 2''])] of
        Inl e \<Rightarrow> None
      | Inr (rs, ctx2) \<Rightarrow> curl ctx2 CURLOPT_HTTPHEADER)
   = Some (Slist [''X-First: 1'', ''X-Second: 2''])"
  by (simp add: eval_simps transfer_example_def)

section \<open>Transport failures\<close>



section \<open>The protocol restriction\<close>

text \<open>
  Claim C4, as the code has it. Every public operation of url.cxx (\<^verbatim>\<open>get\<close>, \<^verbatim>\<open>head\<close>, both
  overloads of \<^verbatim>\<open>post\<close>, \<^verbatim>\<open>put\<close>, \<^verbatim>\<open>patch\<close>, \<^verbatim>\<open>del\<close>) hands to the transfer a handle
  whose protocol option is HTTP and HTTPS only, and leaves the option so. The \<^verbatim>\<open>get\<close> of
  url.cpp (version 0.0.1) does not set the option: its handle has the protocol option it
  had before the call.
\<close>

theorem protocols_restricted_by_url_cxx_operations:
  "transfer_handle env ctx c CURLOPT_PROTOCOLS = Some (Protocols {CURLPROTO_HTTP, CURLPROTO_HTTPS})
   \<and> (\<forall>r ctx'. invoke env ctx c = Inr (r, ctx') \<longrightarrow>
        curl ctx' CURLOPT_PROTOCOLS = Some (Protocols {CURLPROTO_HTTP, CURLPROTO_HTTPS}))
   \<and> curl (request_setup (configured_v001 ctx u hs)) CURLOPT_PROTOCOLS = curl ctx CURLOPT_PROTOCOLS
   \<and> (\<forall>r ctx'. get_v001 env ctx u hs = Inr (r, ctx') \<longrightarrow>
        curl ctx' CURLOPT_PROTOCOLS = curl ctx CURLOPT_PROTOCOLS)"
proof -
  have a: "curl (request_setup (configured_v001 ctx u hs)) CURLOPT_PROTOCOLS = curl ctx CURLOPT_PROTOCOLS"
    by (simp add: configured_v001_def config_simps)
  have b: "curl ctx' CURLOPT_PROTOCOLS = Some (Protocols {CURLPROTO_HTTP, CURLPROTO_HTTPS})"
    if "invoke env ctx c = Inr (r, ctx')" for r ctx'
    using invoke_Inr(1) [OF that] by (simp add: after_return_frame handle_protocols)
  have c: "curl ctx' CURLOPT_PROTOCOLS = curl ctx CURLOPT_PROTOCOLS"
    if "get_v001 env ctx u hs = Inr (r, ctx')" for r ctx'
    using get_v001_Inr(1) [OF that] by (simp only: a)
  show ?thesis
    apply (intro conjI allI impI)
       apply (rule handle_protocols)
      apply (erule b)
     apply (rule a)
    apply (erule c)
    done
qed

theorem protocols_restricted_by_url_cxx_operations_witness:
  "(\<exists>r ctx'. invoke (env_with transfer_example) fresh_context (Put ''http://example.com/a'' ''x'' []) = Inr (r, ctx')
      \<and> curl ctx' CURLOPT_PROTOCOLS = Some (Protocols {CURLPROTO_HTTP, CURLPROTO_HTTPS}))
   \<and> (\<exists>r ctx'. get_v001 (env_with transfer_example) fresh_context ''http://example.com/a'' [] = Inr (r, ctx')
      \<and> curl ctx' CURLOPT_PROTOCOLS = None)"
proof -
  from invoke_total [OF allocations_succeed_env_with] obtain r1 c1 where
    a: "invoke (env_with transfer_example) fresh_context (Put ''http://example.com/a'' ''x'' []) = Inr (r1, c1)"
    by blast
  from get_v001_total [OF allocations_succeed_env_with] obtain r2 c2 where
    b: "get_v001 (env_with transfer_example) fresh_context ''http://example.com/a'' [] = Inr (r2, c2)"
    by blast
  from a b protocols_restricted_by_url_cxx_operations [of "env_with transfer_example" fresh_context
      "Put ''http://example.com/a'' ''x'' []" "''http://example.com/a''" "[]"]
  have "curl c1 CURLOPT_PROTOCOLS = Some (Protocols {CURLPROTO_HTTP, CURLPROTO_HTTPS})"
    and "curl c2 CURLOPT_PROTOCOLS = None"
    by (simp_all add: fresh_context_def)
  with a b show ?thesis by blast
qed

text \<open>
  The claim as stated fails for the \<^verbatim>\<open>get\<close> of url.cpp: on a fresh handle it carries out
  a transfer of an \<^verbatim>\<open>ftp\<close> URL with no protocol option set.
\<close>

theorem get_v001_sets_no_protocol_restriction:
  "get_v001 (env_with transfer_ftp) fresh_context ''ftp://example.com/file'' [] =
     Inr (\<lparr>status_code = 226, headers = [], body = ''data'', encoding = '''',
           url = ''ftp://example.com/file''\<rparr>,
          \<lparr>curl = [CURLOPT_URL \<mapsto> Str ''ftp://example.com/file'',
                   CURLOPT_FOLLOWLOCATION \<mapsto> Long 1,
                   CURLOPT_FAILONERROR \<mapsto> Long 1,
                   CURLOPT_USERAGENT \<mapsto> Str ''libcurl-agent/1.0'',
                   CURLOPT_WRITEFUNCTION \<mapsto> Callback write_user_data_fn,
                   CURLOPT_WRITEDATA \<mapsto> Chunk_ptr,
                   CURLOPT_HEADERFUNCTION \<mapsto> Callback header_callback_fn],
           header_chunk = [], response_headers = []\<rparr>)
   \<and> curl (request_setup (configured_v001 fresh_context ''ftp://example.com/file'' []))
        CURLOPT_PROTOCOLS = None"
  by (simp add: eval_simps get_v001_def transfer_ftp_def configured_v001_def is_content_type_v001_def)

section \<open>The header accumulator\<close>

text \<open>
  Claim C5. Every invocation of the response-header callback appends exactly one entry at
  the end of the header sequence, so the entries stand in delivery order; the entry is the
  delivered line without its last two bytes when the line ends with carriage return and
  line feed, and the delivered line, byte for byte, otherwise. Here \<open>take nitems buffer\<close>
  is the delivered line, \<open>deliver\<close> is the sequence of callback invocations of one
  transfer, and the last part is the same for the headers of the response of a call.
\<close>

theorem header_callback_appends_one_line:
  "snd (header_callback buffer size_arg nitems hdrs) = hdrs @ [strip_crlf (take nitems buffer)]
   \<and> strip_crlf (p @ [CHR 0x0D, CHR 0x0A]) = p
   \<and> ((\<forall>q. l \<noteq> q @ [CHR 0x0D, CHR 0x0A]) \<longrightarrow> strip_crlf l = l)
   \<and> (\<forall>hdrs' chunk'. deliver env es (hdrs, chunk) = Inr (hdrs', chunk') \<longrightarrow>
         hdrs' = hdrs @ map strip_crlf (header_lines es))
   \<and> (\<forall>r ctx'. invoke env ctx c = Inr (r, ctx') \<and> inspectable (transfer_of env ctx c) \<longrightarrow>
         headers r = map strip_crlf (header_lines (events (transfer_of env ctx c))))"
  using header_callback_snd strip_crlf_append strip_crlf_other deliver_headers invoke_Inr(4)
  by blast

theorem header_callback_appends_one_line_witness:
  "snd (header_callback (''Content-Length: 5'' @ [CHR 0x0D, CHR 0x0A]) 1 19 [''HTTP/1.1 200 OK''])
     = [''HTTP/1.1 200 OK'', ''Content-Length: 5'']
   \<and> (\<forall>q. ''X-Last: kept as it is'' \<noteq> q @ [CHR 0x0D, CHR 0x0A])
   \<and> strip_crlf ''X-Last: kept as it is'' = ''X-Last: kept as it is''
   \<and> inspectable (transfer_of (env_with transfer_example) fresh_context (Get ''example.com'' []))
   \<and> (\<exists>r ctx'. invoke (env_with transfer_example) fresh_context (Get ''example.com'' []) = Inr (r, ctx')
        \<and> headers r = [''HTTP/1.1 200 OK'', ''Content-Length: 5'', ''X-Last: kept as it is'', ''''])"
proof -
  have a: "\<forall>q. ''X-Last: kept as it is'' \<noteq> q @ [CHR 0x0D, CHR 0x0A]"
  proof (intro allI notI)
    fix q assume "''X-Last: kept as it is'' = q @ [CHR 0x0D, CHR 0x0A]"
    then have "last ''X-Last: kept as it is'' = last (q @ [CHR 0x0D, CHR 0x0A])"
      by (rule arg_cong)
    then show False by simp
  qed
  have b: "inspectable (transfer_of (env_with transfer_example) fresh_context (Get ''example.com'' []))"
    by (simp add: transfer_of_env_with inspectable_def transfer_example_def)
  from invoke_total [OF allocations_succeed_env_with] obtain r ctx' where
    c: "invoke (env_with transfer_example) fresh_context (Get ''example.com'' []) = Inr (r, ctx')"
    by blast
  from a b c
    header_callback_appends_one_line [where buffer = "''Content-Length: 5'' @ [CHR 0x0D, CHR 0x0A]"
      and size_arg = 1 and nitems = 19 and hdrs = "[''HTTP/1.1 200 OK'']"
      and l = "''X-Last: kept as it is''" and env = "env_with transfer_example"
      and ctx = fresh_context and c = "Get ''example.com'' []"]
  show ?thesis
    by (simp add: transfer_of_env_with transfer_example_def strip_crlf_def)
qed

section \<open>URL normalisation\<close>




section \<open>Two requests on one worker\<close>

text \<open>
  Claim C7. Two calls of \<^verbatim>\<open>get\<close> in sequence on the same worker give two isolated
  responses: the headers and the body of the second response are the header lines and the
  body bytes the second transfer delivered (nothing when that transfer gave no response to
  inspect), whatever the first call left behind. The first call leaves in the header
  accumulator nothing after an inspectable transfer and its own lines after a failed one;
  the second call starts with a cleared accumulator and a fresh body buffer, so its
  result does not depend on what the accumulator held.
\<close>

theorem second_get_is_isolated_from_first:
  assumes "get env1 ctx0 u1 hs1 = Inr (r1, ctx1)" and "get env2 ctx1 u2 hs2 = Inr (r2, ctx2)"
  shows "headers r2 =
      (if inspectable (transfer_of env2 ctx1 (Get u2 hs2))
       then map strip_crlf (header_lines (events (transfer_of env2 ctx1 (Get u2 hs2)))) else [])
    \<and> body r2 =
      (if inspectable (transfer_of env2 ctx1 (Get u2 hs2))
       then body_bytes (events (transfer_of env2 ctx1 (Get u2 hs2))) else [])
    \<and> response_headers ctx1 =
      (if inspectable (transfer_of env1 ctx0 (Get u1 hs1)) then []
       else map strip_crlf (header_lines (events (transfer_of env1 ctx0 (Get u1 hs1)))))
    \<and> get env2 (ctx1\<lparr>response_headers := stale\<rparr>) u2 hs2 = get env2 ctx1 u2 hs2"
proof -
  from assms have a: "invoke env1 ctx0 (Get u1 hs1) = Inr (r1, ctx1)"
    and b: "invoke env2 ctx1 (Get u2 hs2) = Inr (r2, ctx2)"
    by simp_all
  from invoke_Inr(3,4) [OF b] have "headers r2 =
      (if inspectable (transfer_of env2 ctx1 (Get u2 hs2))
       then map strip_crlf (header_lines (events (transfer_of env2 ctx1 (Get u2 hs2)))) else [])"
    and "body r2 =
      (if inspectable (transfer_of env2 ctx1 (Get u2 hs2))
       then body_bytes (events (transfer_of env2 ctx1 (Get u2 hs2))) else [])"
    by (simp_all add: response_t_init_def)
  with invoke_response_headers [OF a] get_ignores_accumulator [where env = env2 and ctx = ctx1 and stale = stale and u = u2 and hs = hs2]
  show ?thesis by simp
qed

theorem second_get_is_isolated_from_first_witness:
  "get (env_with transfer_cut_short) fresh_context ''example.com'' [] =
     Inr (\<lparr>status_code = 0, headers = [], body = '''', encoding = '''', url = ''''\<rparr>,
          \<lparr>curl = [CURLOPT_URL \<mapsto> Str ''example.com'',
                   CURLOPT_PROTOCOLS \<mapsto> Protocols {CURLPROTO_HTTP, CURLPROTO_HTTPS},
                   CURLOPT_FOLLOWLOCATION \<mapsto> Long 1,
                   CURLOPT_FAILONERROR \<mapsto> Long 1,
                   CURLOPT_USERAGENT \<mapsto> Str ''libcurl-agent/1.0'',
                   CURLOPT_WRITEFUNCTION \<mapsto> Callback write_user_data_fn,
                   CURLOPT_WRITEDATA \<mapsto> Chunk_ptr,
                   CURLOPT_HEADERFUNCTION \<mapsto> Callback header_callback_fn],
           header_chunk = [],
           response_headers = [''HTTP/1.1 200 OK'', ''Content-Type: text/plain'']\<rparr>)
   \<and> (\<exists>r2 ctx2.
        get (env_with transfer_example)
          \<lparr>curl = [CURLOPT_URL \<mapsto> Str ''example.com'',
                   CURLOPT_PROTOCOLS \<mapsto> Protocols {CURLPROTO_HTTP, CURLPROTO_HTTPS},
                   CURLOPT_FOLLOWLOCATION \<mapsto> Long 1,
                   CURLOPT_FAILONERROR \<mapsto> Long 1,
                   CURLOPT_USERAGENT \<mapsto> Str ''libcurl-agent/1.0'',
                   CURLOPT_WRITEFUNCTION \<mapsto> Callback write_user_data_fn,
                   CURLOPT_WRITEDATA \<mapsto> Chunk_ptr,
                   CURLOPT_HEADERFUNCTION \<mapsto> Callback header_callback_fn],
           header_chunk = [],
           response_headers = [''HTTP/1.1 200 OK'', ''Content-Type: text/plain'']\<rparr>
          ''example.com'' [] = Inr (r2, ctx2)
        \<and> headers r2 = [''HTTP/1.1 200 OK'', ''Content-Length: 5'', ''X-Last: kept as it is'', '''']
        \<and> body r2 = ''hello'')"
proof -
  let ?ctx1 = "\<lparr>curl = [CURLOPT_URL \<mapsto> Str ''example.com'',
                   CURLOPT_PROTOCOLS \<mapsto> Protocols {CURLPROTO_HTTP, CURLPROTO_HTTPS},
                   CURLOPT_FOLLOWLOCATION \<mapsto> Long 1,
                   CURLOPT_FAILONERROR \<mapsto> Long 1,
                   CURLOPT_USERAGENT \<mapsto> Str ''libcurl-agent/1.0'',
                   CURLOPT_WRITEFUNCTION \<mapsto> Callback write_user_data_fn,
                   CURLOPT_WRITEDATA \<mapsto> Chunk_ptr,
                   CURLOPT_HEADERFUNCTION \<mapsto> Callback header_callback_fn],
           header_chunk = [],
           response_headers = [''HTTP/1.1 200 OK'', ''Content-Type: text/plain'']\<rparr>"
  have a: "get (env_with transfer_cut_short) fresh_context ''example.com'' [] =
     Inr (\<lparr>status_code = 0, headers = [], body = '''', encoding = '''', url = ''''\<rparr>, ?ctx1)"
    by (simp add: eval_simps transfer_cut_short_def)
  from invoke_total [OF allocations_succeed_env_with, of transfer_example ?ctx1 "Get ''example.com'' []"]
  obtain r2 ctx2 where b: "get (env_with transfer_example) ?ctx1 ''example.com'' [] = Inr (r2, ctx2)"
    by auto
  from second_get_is_isolated_from_first [OF a b]
  have "headers r2 = [''HTTP/1.1 200 OK'', ''Content-Length: 5'', ''X-Last: kept as it is'', '''']
        \<and> body r2 = ''hello''"
    by (simp add: transfer_of_env_with transfer_example_def inspectable_def strip_crlf_def)
  with a b show ?thesis by blast
qed

section \<open>The success predicate\<close>

text \<open>
  Claim C8. The conversion of a response to \<^verbatim>\<open>bool\<close> is true exactly when the status code
  is at least 100 and less than 400: every status from 300 to 399 is a success, every
  status from 400 to 599 and the status 0 are failures.
\<close>

theorem success_iff_status_in_100_399:
  "operator_bool r = (100 \<le> unat (status_code r) \<and> unat (status_code r) < 400)
   \<and> (300 \<le> unat (status_code r) \<and> unat (status_code r) < 400 \<longrightarrow> operator_bool r)
   \<and> (400 \<le> unat (status_code r) \<and> unat (status_code r) < 600 \<longrightarrow> \<not> operator_bool r)
   \<and> (status_code r = 0 \<longrightarrow> \<not> operator_bool r)"
proof -
  have "operator_bool r = (100 \<le> unat (status_code r) \<and> unat (status_code r) < 400)"
    by (simp add: operator_bool_def word_le_nat_alt word_less_nat_alt)
  then show ?thesis by auto
qed

theorem success_iff_status_in_100_399_witness:
  "operator_bool (response_t_init\<lparr>status_code := 302\<rparr>)
   \<and> \<not> operator_bool (response_t_init\<lparr>status_code := 404\<rparr>)
   \<and> \<not> operator_bool (response_t_init\<lparr>status_code := 503\<rparr>)
   \<and> \<not> operator_bool response_t_init
   \<and> operator_bool (response_t_init\<lparr>status_code := 100\<rparr>)
   \<and> \<not> operator_bool (response_t_init\<lparr>status_code := 99\<rparr>)
   \<and> operator_bool (response_t_init\<lparr>status_code := 399\<rparr>)
   \<and> \<not> operator_bool (response_t_init\<lparr>status_code := 400\<rparr>)"
  using success_iff_status_in_100_399 [of "response_t_init\<lparr>status_code := 302\<rparr>"]
    success_iff_status_in_100_399 [of "response_t_init\<lparr>status_code := 404\<rparr>"]
    success_iff_status_in_100_399 [of "response_t_init\<lparr>status_code := 503\<rparr>"]
    success_iff_status_in_100_399 [of "response_t_init"]
    success_iff_status_in_100_399 [of "response_t_init\<lparr>status_code := 100\<rparr>"]
    success_iff_status_in_100_399 [of "response_t_init\<lparr>status_code := 99\<rparr>"]
    success_iff_status_in_100_399 [of "response_t_init\<lparr>status_code := 399\<rparr>"]
    success_iff_status_in_100_399 [of "response_t_init\<lparr>status_code := 400\<rparr>"]
  by (simp add: response_t_init_def)

section \<open>Options persist between calls\<close>

text \<open>
  Claim C9, as the code has it. No public operation resets the transfer handle. An option
  that a call does not write has, in the handle of that call's transfer, the value it had
  before the call; an option that was set stays set, through the transfer and after the
  call; and a call leaves the handle as its transfer used it, but for the memory its
  local objects release when it returns. So after \<^verbatim>\<open>head\<close>, a \<^verbatim>\<open>get\<close> or a \<^verbatim>\<open>post\<close> with a
  raw body on the same worker still has \<^verbatim>\<open>CURLOPT_NOBODY\<close> set to 1, whereas a \<^verbatim>\<open>post\<close> with
  a form sets \<^verbatim>\<open>CURLOPT_MIMEPOST\<close>, with which the engine switches \<^verbatim>\<open>CURLOPT_NOBODY\<close> off.
  After \<^verbatim>\<open>put\<close>, \<^verbatim>\<open>patch\<close> or \<^verbatim>\<open>del\<close>, a \<^verbatim>\<open>get\<close> or a \<^verbatim>\<open>post\<close> of either kind still has the
  custom method of that call. After a call that passed a raw body, a call that passes
  none still has \<^verbatim>\<open>CURLOPT_POSTFIELDS\<close> set, to the pointer the earlier call left.
\<close>

theorem options_not_written_persist:
  "(opt \<notin> options_set_by c \<longrightarrow> transfer_handle env ctx c opt = curl ctx opt)
   \<and> (curl ctx opt \<noteq> None \<longrightarrow> transfer_handle env ctx c opt \<noteq> None)
   \<and> (\<forall>r ctx'. invoke env ctx c = Inr (r, ctx') \<longrightarrow>
         curl ctx' = after_return c (transfer_handle env ctx c)
       \<and> (curl ctx opt \<noteq> None \<longrightarrow> curl ctx' opt \<noteq> None))
   \<and> (\<forall>r1 ctx1. invoke env ctx (Head u hs) = Inr (r1, ctx1) \<longrightarrow>
         curl ctx1 CURLOPT_NOBODY = Some (Long 1)
       \<and> transfer_handle env2 ctx1 (Get u2 hs2) CURLOPT_NOBODY = Some (Long 1)
       \<and> transfer_handle env2 ctx1 (Post u2 b2 hs2) CURLOPT_NOBODY = Some (Long 1)
       \<and> transfer_handle env2 ctx1 (Post_form u2 f2 hs2) CURLOPT_NOBODY = Some (Long 0))
   \<and> (\<forall>r1 ctx1. invoke env ctx c = Inr (r1, ctx1) \<and> custom_method_of c = Some m \<longrightarrow>
         curl ctx1 CURLOPT_CUSTOMREQUEST = Some (Str m)
       \<and> transfer_handle env2 ctx1 (Get u2 hs2) CURLOPT_CUSTOMREQUEST = Some (Str m)
       \<and> transfer_handle env2 ctx1 (Post u2 b2 hs2) CURLOPT_CUSTOMREQUEST = Some (Str m)
       \<and> transfer_handle env2 ctx1 (Post_form u2 f2 hs2) CURLOPT_CUSTOMREQUEST = Some (Str m))
   \<and> (\<forall>r1 ctx1. invoke env ctx c = Inr (r1, ctx1) \<and> payload_of c = Some b \<and> payload_of c2 = None \<longrightarrow>
         curl ctx1 CURLOPT_POSTFIELDS \<noteq> None
       \<and> transfer_handle env2 ctx1 c2 CURLOPT_POSTFIELDS = curl ctx1 CURLOPT_POSTFIELDS)"
proof -
  have a: "curl ctx1 CURLOPT_CUSTOMREQUEST = Some (Str m)
       \<and> transfer_handle env2 ctx1 (Get u2 hs2) CURLOPT_CUSTOMREQUEST = Some (Str m)
       \<and> transfer_handle env2 ctx1 (Post u2 b2 hs2) CURLOPT_CUSTOMREQUEST = Some (Str m)
       \<and> transfer_handle env2 ctx1 (Post_form u2 f2 hs2) CURLOPT_CUSTOMREQUEST = Some (Str m)"
    if "invoke env ctx c = Inr (r1, ctx1) \<and> custom_method_of c = Some m" for r1 ctx1
  proof -
    from that invoke_Inr(1) [of env ctx c r1 ctx1] handle_custom_method [of c m env ctx]
    have "curl ctx1 CURLOPT_CUSTOMREQUEST = Some (Str m)"
      by (simp add: after_return_frame)
    then show ?thesis
      by (simp add: handle_frame common_options_def)
  qed
  have b: "curl ctx1 CURLOPT_POSTFIELDS \<noteq> None
       \<and> transfer_handle env2 ctx1 c2 CURLOPT_POSTFIELDS = curl ctx1 CURLOPT_POSTFIELDS"
    if "invoke env ctx c = Inr (r1, ctx1) \<and> payload_of c = Some b \<and> payload_of c2 = None" for r1 ctx1
  proof -
    from that payload_after_return [of env ctx c r1 ctx1 b]
    have "curl ctx1 CURLOPT_POSTFIELDS = Some Postfields_dangling" by simp
    with that postfields_not_set [of c2] show ?thesis
      by (simp add: handle_frame)
  qed
  have c: "curl ctx1 CURLOPT_NOBODY = Some (Long 1)
       \<and> transfer_handle env2 ctx1 (Get u2 hs2) CURLOPT_NOBODY = Some (Long 1)
       \<and> transfer_handle env2 ctx1 (Post u2 b2 hs2) CURLOPT_NOBODY = Some (Long 1)
       \<and> transfer_handle env2 ctx1 (Post_form u2 f2 hs2) CURLOPT_NOBODY = Some (Long 0)"
    if "invoke env ctx (Head u hs) = Inr (r1, ctx1)" for r1 ctx1
  proof -
    from invoke_Inr(1) [OF that] have "curl ctx1 CURLOPT_NOBODY = Some (Long 1)"
      by (simp add: config_simps)
    with handle_nobody_after_head [OF that, of env2] show ?thesis
      by (simp add: common_options_def)
  qed
  have d: "curl ctx' = after_return c (transfer_handle env ctx c)
       \<and> (curl ctx opt \<noteq> None \<longrightarrow> curl ctx' opt \<noteq> None)"
    if "invoke env ctx c = Inr (r, ctx')" for r ctx'
  proof -
    from invoke_Inr(1) [OF that] have e: "curl ctx' = after_return c (transfer_handle env ctx c)" .
    have "after_return c h opt \<noteq> None" if "h opt \<noteq> None" for h
      using that by (cases c) (simp_all add: string_dtor_def curl_mime_free_def)
    with e handle_dom [of ctx opt env c] show ?thesis
      by simp
  qed
  have k1: "opt \<notin> options_set_by c \<longrightarrow> transfer_handle env ctx c opt = curl ctx opt"
    by (simp add: handle_frame)
  have k2: "curl ctx opt \<noteq> None \<longrightarrow> transfer_handle env ctx c opt \<noteq> None"
    using handle_dom [of ctx opt env c] by blast
  have k3: "\<forall>r ctx'. invoke env ctx c = Inr (r, ctx') \<longrightarrow>
         curl ctx' = after_return c (transfer_handle env ctx c)
       \<and> (curl ctx opt \<noteq> None \<longrightarrow> curl ctx' opt \<noteq> None)"
    using d by blast
  have k4: "\<forall>r1 ctx1. invoke env ctx (Head u hs) = Inr (r1, ctx1) \<longrightarrow>
         curl ctx1 CURLOPT_NOBODY = Some (Long 1)
       \<and> transfer_handle env2 ctx1 (Get u2 hs2) CURLOPT_NOBODY = Some (Long 1)
       \<and> transfer_handle env2 ctx1 (Post u2 b2 hs2) CURLOPT_NOBODY = Some (Long 1)
       \<and> transfer_handle env2 ctx1 (Post_form u2 f2 hs2) CURLOPT_NOBODY = Some (Long 0)"
    using c by blast
  have k5: "\<forall>r1 ctx1. invoke env ctx c = Inr (r1, ctx1) \<and> custom_method_of c = Some m \<longrightarrow>
         curl ctx1 CURLOPT_CUSTOMREQUEST = Some (Str m)
       \<and> transfer_handle env2 ctx1 (Get u2 hs2) CURLOPT_CUSTOMREQUEST = Some (Str m)
       \<and> transfer_handle env2 ctx1 (Post u2 b2 hs2) CURLOPT_CUSTOMREQUEST = Some (Str m)
       \<and> transfer_handle env2 ctx1 (Post_form u2 f2 hs2) CURLOPT_CUSTOMREQUEST = Some (Str m)"
    using a by blast
  have k6: "\<forall>r1 ctx1. invoke env ctx c = Inr (r1, ctx1) \<and> payload_of c = Some b \<and> payload_of c2 = None \<longrightarrow>
         curl ctx1 CURLOPT_POSTFIELDS \<noteq> None
       \<and> transfer_handle env2 ctx1 c2 CURLOPT_POSTFIELDS = curl ctx1 CURLOPT_POSTFIELDS"
    using b by blast
  show ?thesis
    by (intro conjI) (rule k1 k2 k3 k4 k5 k6)+
qed

theorem options_not_written_persist_witness:
  "(\<exists>r1 ctx1. invoke (env_with transfer_example) fresh_context (Head ''example.com'' []) = Inr (r1, ctx1)
      \<and> curl ctx1 CURLOPT_NOBODY = Some (Long 1)
      \<and> transfer_handle (env_with transfer_example) ctx1 (Get ''example.com'' []) CURLOPT_NOBODY = Some (Long 1)
      \<and> transfer_handle (env_with transfer_example) ctx1 (Post ''example.com'' ''a=1'' []) CURLOPT_NOBODY = Some (Long 1)
      \<and> transfer_handle (env_with transfer_example) ctx1 (Post_form ''example.com'' [(''a'', ''1'')] [])
           CURLOPT_NOBODY = Some (Long 0))
   \<and> (\<exists>r1 ctx1. invoke (env_with transfer_example) fresh_context (Put ''example.com/a'' ''x'' []) = Inr (r1, ctx1)
      \<and> custom_method_of (Put ''example.com/a'' ''x'' []) = Some ''PUT''
      \<and> payload_of (Put ''example.com/a'' ''x'' []) = Some ''x''
      \<and> payload_of (Del ''example.com/a'' [] []) = None
      \<and> transfer_handle (env_with transfer_example) ctx1 (Get ''example.com'' []) CURLOPT_CUSTOMREQUEST = Some (Str ''PUT'')
      \<and> transfer_handle (env_with transfer_example) ctx1 (Post ''example.com'' ''a=1'' []) CURLOPT_CUSTOMREQUEST = Some (Str ''PUT'')
      \<and> transfer_handle (env_with transfer_example) ctx1 (Post_form ''example.com'' [(''a'', ''1'')] [])
           CURLOPT_CUSTOMREQUEST = Some (Str ''PUT'')
      \<and> curl ctx1 CURLOPT_POSTFIELDS \<noteq> None
      \<and> transfer_handle (env_with transfer_example) ctx1 (Del ''example.com/a'' [] []) CURLOPT_POSTFIELDS
           = curl ctx1 CURLOPT_POSTFIELDS)
   \<and> CURLOPT_CUSTOMREQUEST \<notin> options_set_by (Get ''example.com'' [])
   \<and> transfer_handle (env_with transfer_example)
        (fresh_context\<lparr>curl := [CURLOPT_CUSTOMREQUEST \<mapsto> Str ''PATCH'']\<rparr>)
        (Get ''example.com'' []) CURLOPT_CUSTOMREQUEST = Some (Str ''PATCH'')"
proof -
  let ?E = "env_with transfer_example"
  from invoke_total [OF allocations_succeed_env_with] obtain r1 c1 where
    a: "invoke ?E fresh_context (Head ''example.com'' []) = Inr (r1, c1)"
    by blast
  from invoke_total [OF allocations_succeed_env_with] obtain r2 c2 where
    b: "invoke ?E fresh_context (Put ''example.com/a'' ''x'' []) = Inr (r2, c2)"
    by blast
  from a options_not_written_persist [where env = ?E and ctx = fresh_context and u = "''example.com''"
      and hs = "[]" and ?env2.0 = ?E and ?u2.0 = "''example.com''" and ?hs2.0 = "[]"
      and ?b2.0 = "''a=1''" and ?f2.0 = "[(''a'', ''1'')]"]
  have n: "curl c1 CURLOPT_NOBODY = Some (Long 1)
      \<and> transfer_handle ?E c1 (Get ''example.com'' []) CURLOPT_NOBODY = Some (Long 1)
      \<and> transfer_handle ?E c1 (Post ''example.com'' ''a=1'' []) CURLOPT_NOBODY = Some (Long 1)
      \<and> transfer_handle ?E c1 (Post_form ''example.com'' [(''a'', ''1'')] []) CURLOPT_NOBODY = Some (Long 0)"
    by blast
  have p1: "custom_method_of (Put ''example.com/a'' ''x'' []) = Some ''PUT''"
    and p2: "payload_of (Put ''example.com/a'' ''x'' []) = Some ''x''"
    and p3: "payload_of (Del ''example.com/a'' [] []) = None"
    by simp_all
  from b p1 p2 p3 options_not_written_persist [where env = ?E and ctx = fresh_context
      and c = "Put ''example.com/a'' ''x'' []" and m = "''PUT''" and b = "''x''"
      and ?c2.0 = "Del ''example.com/a'' [] []"
      and ?env2.0 = ?E and ?u2.0 = "''example.com''" and ?hs2.0 = "[]" and ?b2.0 = "''a=1''"
      and ?f2.0 = "[(''a'', ''1'')]"]
  have m: "transfer_handle ?E c2 (Get ''example.com'' []) CURLOPT_CUSTOMREQUEST = Some (Str ''PUT'')
      \<and> transfer_handle ?E c2 (Post ''example.com'' ''a=1'' []) CURLOPT_CUSTOMREQUEST = Some (Str ''PUT'')
      \<and> transfer_handle ?E c2 (Post_form ''example.com'' [(''a'', ''1'')] []) CURLOPT_CUSTOMREQUEST
           = Some (Str ''PUT'')
      \<and> curl c2 CURLOPT_POSTFIELDS \<noteq> None
      \<and> transfer_handle ?E c2 (Del ''example.com/a'' [] []) CURLOPT_POSTFIELDS = curl c2 CURLOPT_POSTFIELDS"
    by blast
  have f: "CURLOPT_CUSTOMREQUEST \<notin> options_set_by (Get ''example.com'' [])"
    by (simp add: common_options_def)
  from f options_not_written_persist [where env = ?E and c = "Get ''example.com'' []"
      and opt = CURLOPT_CUSTOMREQUEST
      and ctx = "fresh_context\<lparr>curl := [CURLOPT_CUSTOMREQUEST \<mapsto> Str ''PATCH'']\<rparr>"]
  have g: "transfer_handle ?E
        (fresh_context\<lparr>curl := [CURLOPT_CUSTOMREQUEST \<mapsto> Str ''PATCH'']\<rparr>)
        (Get ''example.com'' []) CURLOPT_CUSTOMREQUEST = Some (Str ''PATCH'')"
    by simp
  from a n have ex1: "\<exists>r1 ctx1. invoke ?E fresh_context (Head ''example.com'' []) = Inr (r1, ctx1)
      \<and> curl ctx1 CURLOPT_NOBODY = Some (Long 1)
      \<and> transfer_handle ?E ctx1 (Get ''example.com'' []) CURLOPT_NOBODY = Some (Long 1)
      \<and> transfer_handle ?E ctx1 (Post ''example.com'' ''a=1'' []) CURLOPT_NOBODY = Some (Long 1)
      \<and> transfer_handle ?E ctx1 (Post_form ''example.com'' [(''a'', ''1'')] [])
           CURLOPT_NOBODY = Some (Long 0)"
    by (intro exI [of _ r1] exI [of _ c1] conjI) (rule a n [THEN conjunct1]
      n [THEN conjunct2, THEN conjunct1] n [THEN conjunct2, THEN conjunct2, THEN conjunct1]
      n [THEN conjunct2, THEN conjunct2, THEN conjunct2])+
  from b p1 p2 p3 m have ex2: "\<exists>r1 ctx1. invoke ?E fresh_context (Put ''example.com/a'' ''x'' []) = Inr (r1, ctx1)
      \<and> custom_method_of (Put ''example.com/a'' ''x'' []) = Some ''PUT''
      \<and> payload_of (Put ''example.com/a'' ''x'' []) = Some ''x''
      \<and> payload_of (Del ''example.com/a'' [] []) = None
      \<and> transfer_handle ?E ctx1 (Get ''example.com'' []) CURLOPT_CUSTOMREQUEST = Some (Str ''PUT'')
      \<and> transfer_handle ?E ctx1 (Post ''example.com'' ''a=1'' []) CURLOPT_CUSTOMREQUEST = Some (Str ''PUT'')
      \<and> transfer_handle ?E ctx1 (Post_form ''example.com'' [(''a'', ''1'')] [])
           CURLOPT_CUSTOMREQUEST = Some (Str ''PUT'')
      \<and> curl ctx1 CURLOPT_POSTFIELDS \<noteq> None
      \<and> transfer_handle ?E ctx1 (Del ''example.com/a'' [] []) CURLOPT_POSTFIELDS
           = curl ctx1 CURLOPT_POSTFIELDS"
    by (intro exI [of _ r2] exI [of _ c2]) (simp only: simp_thms)
  show ?thesis
    by (intro conjI) (rule ex1 ex2 f g)+
qed

text \<open>
  The claim says that after \<^verbatim>\<open>head\<close> a later \<^verbatim>\<open>post\<close> still has the retrieval of the body
  suppressed, and that a later call without a body still carries the previous payload.
  On a worker with a fresh handle, \<^verbatim>\<open>head\<close> followed by a \<^verbatim>\<open>post\<close> with a form runs its
  transfer with \<^verbatim>\<open>CURLOPT_NOBODY\<close> switched off, and leaves it so. And \<^verbatim>\<open>put\<close> with the body
  \<^verbatim>\<open>x\<close> followed by \<^verbatim>\<open>get\<close> runs the transfer of \<^verbatim>\<open>get\<close> with a payload pointer to a string
  that has been destroyed, not with the payload \<^verbatim>\<open>x\<close>.
\<close>

theorem form_post_after_head_switches_nobody_off:
  "(case invoke (env_with transfer_example) fresh_context (Head ''example.com'' []) of
      Inl e \<Rightarrow> None
    | Inr (r1, ctx1) \<Rightarrow>
        transfer_handle (env_with transfer_example) ctx1
          (Post_form ''example.com'' [(''a'', ''1'')] []) CURLOPT_NOBODY) = Some (Long 0)
   \<and> (case invoke_all fresh_context
         [(env_with transfer_example, Head ''example.com'' []),
          (env_with transfer_example, Post_form ''example.com'' [(''a'', ''1'')] [])] of
      Inl e \<Rightarrow> None
    | Inr (rs, ctx2) \<Rightarrow> curl ctx2 CURLOPT_NOBODY) = Some (Long 0)
   \<and> (case invoke (env_with transfer_example) fresh_context (Put ''example.com/a'' ''x'' []) of
      Inl e \<Rightarrow> None
    | Inr (r1, ctx1) \<Rightarrow>
        transfer_handle (env_with transfer_example) ctx1 (Get ''example.com'' []) CURLOPT_POSTFIELDS)
     = Some Postfields_dangling"
  by (simp add: eval_simps transfer_example_def)

section \<open>The combinators of a response\<close>

text \<open>
  Claim C10. For a response \<open>r\<close> and callables \<open>f\<close> and \<open>g\<close>: when the success predicate of
  \<open>r\<close> is false, \<^verbatim>\<open>r.and_then(f)\<close> returns the value-initialised object of the result type
  of \<open>f\<close> and does not invoke \<open>f\<close> (the state is as before), and \<^verbatim>\<open>r.or_else(g)\<close> returns
  what the invocation of \<open>g\<close> without arguments returns; when the predicate is true,
  \<^verbatim>\<open>r.and_then(f)\<close> returns \<open>f\<close> applied to \<open>r\<close> and \<^verbatim>\<open>r.or_else(g)\<close> returns \<open>r\<close> unchanged
  without invoking \<open>g\<close>.
\<close>

theorem and_then_or_else_by_success:
  "(\<not> operator_bool r \<longrightarrow> and_then r f value_init s = (value_init, s) \<and> or_else r g s = g s)
   \<and> (operator_bool r \<longrightarrow> and_then r f value_init s = f r s \<and> or_else r g s = (r, s))"
  by (simp add: and_then_def or_else_def)

theorem and_then_or_else_by_success_witness:
  "\<not> operator_bool response_t_init
   \<and> and_then response_t_init (\<lambda>r n. (body r, Suc n)) ''none'' (0::nat) = (''none'', 0)
   \<and> or_else response_t_init (\<lambda>n. (response_t_init\<lparr>status_code := 204\<rparr>, Suc n)) (0::nat)
       = (response_t_init\<lparr>status_code := 204\<rparr>, 1)
   \<and> operator_bool (response_t_init\<lparr>status_code := 200, body := ''hello''\<rparr>)
   \<and> and_then (response_t_init\<lparr>status_code := 200, body := ''hello''\<rparr>)
         (\<lambda>r n. (body r, Suc n)) ''none'' (0::nat) = (''hello'', 1)
   \<and> or_else (response_t_init\<lparr>status_code := 200, body := ''hello''\<rparr>)
         (\<lambda>n. (response_t_init\<lparr>status_code := 204\<rparr>, Suc n)) (0::nat)
       = (response_t_init\<lparr>status_code := 200, body := ''hello''\<rparr>, 0)"
  using and_then_or_else_by_success [of response_t_init "\<lambda>r n. (body r, Suc n)" "''none''" "0::nat"
      "\<lambda>n. (response_t_init\<lparr>status_code := 204\<rparr>, Suc n)"]
    and_then_or_else_by_success [of "response_t_init\<lparr>status_code := 200, body := ''hello''\<rparr>"
      "\<lambda>r n. (body r, Suc n)" "''none''" "0::nat"
      "\<lambda>n. (response_t_init\<lparr>status_code := 204\<rparr>, Suc n)"]
  by (simp add: response_t_init_def operator_bool_def)

section \<open>Further properties of the response assembler and the request configurator\<close>

text \<open>
  Property X1. On an inspectable outcome the response of a public operation has the
  response code of the engine as its status code, the delivered header lines without
  their final carriage return and line feed as its headers, the concatenation of the
  delivered chunks as its body, and the effective URL as its URL, empty when the engine
  reports a null pointer.
\<close>

theorem response_is_assembled_from_transfer:
  "\<forall>r ctx'. invoke env ctx c = Inr (r, ctx') \<and> inspectable (transfer_of env ctx c) \<longrightarrow>
      status_code r = word_of_int (response_code (transfer_of env ctx c))
      \<and> headers r = map strip_crlf (header_lines (events (transfer_of env ctx c)))
      \<and> body r = body_bytes (events (transfer_of env ctx c))
      \<and> url r = (case effective_url (transfer_of env ctx c) of None \<Rightarrow> [] | Some u \<Rightarrow> u)"
proof (intro allI impI)
  fix r ctx'
  assume a: "invoke env ctx c = Inr (r, ctx') \<and> inspectable (transfer_of env ctx c)"
  then have i: "invoke env ctx c = Inr (r, ctx')" and j: "inspectable (transfer_of env ctx c)"
    by simp_all
  from invoke_Inr(4) [OF i j]
  show "status_code r = word_of_int (response_code (transfer_of env ctx c))
      \<and> headers r = map strip_crlf (header_lines (events (transfer_of env ctx c)))
      \<and> body r = body_bytes (events (transfer_of env ctx c))
      \<and> url r = (case effective_url (transfer_of env ctx c) of None \<Rightarrow> [] | Some u \<Rightarrow> u)"
    by simp
qed

theorem response_is_assembled_from_transfer_witness:
  "inspectable (transfer_of (env_with transfer_html) fresh_context (Post ''example.com'' ''a=1'' []))
   \<and> (\<exists>r ctx'. invoke (env_with transfer_html) fresh_context (Post ''example.com'' ''a=1'' []) = Inr (r, ctx')
        \<and> status_code r = 200
        \<and> headers r = [''HTTP/1.1 200 OK'', ''Content-Type: text/html; charset=UTF-8'', '''']
        \<and> body r = ''<html></html>''
        \<and> url r = ''http://example.com/'')"
proof -
  let ?E = "env_with transfer_html"
  have i: "inspectable (transfer_of ?E fresh_context (Post ''example.com'' ''a=1'' []))"
    by (simp add: transfer_of_env_with inspectable_def transfer_html_def)
  from invoke_total [OF allocations_succeed_env_with] obtain r ctx' where
    a: "invoke ?E fresh_context (Post ''example.com'' ''a=1'' []) = Inr (r, ctx')"
    by blast
  from response_is_assembled_from_transfer [rule_format, OF conjI, OF a i]
  have "status_code r = 200"
    and "headers r = [''HTTP/1.1 200 OK'', ''Content-Type: text/html; charset=UTF-8'', '''']"
    and "body r = ''<html></html>''"
    and "url r = ''http://example.com/''"
    by (simp_all add: transfer_of_env_with transfer_html_def strip_crlf_def)
  with a have "\<exists>r ctx'. invoke ?E fresh_context (Post ''example.com'' ''a=1'' []) = Inr (r, ctx')
        \<and> status_code r = 200
        \<and> headers r = [''HTTP/1.1 200 OK'', ''Content-Type: text/html; charset=UTF-8'', '''']
        \<and> body r = ''<html></html>''
        \<and> url r = ''http://example.com/''"
    by (intro exI conjI)
  with i show ?thesis by (rule conjI)
qed

text \<open>
  Property X2. The write callback appends the \<open>size * nmemb\<close> bytes it is given to the
  body buffer, adds them to the running length, ends the buffer with a zero byte and
  returns their number; when the buffer cannot grow it throws.
\<close>

theorem write_user_data_appends_chunk:
  "(realloc_ok env (size_ud mem + size_arg * nmemb + 1)
      \<and> size_ud mem \<le> length (memory mem) \<and> size_arg * nmemb \<le> length contents \<longrightarrow>
      (\<exists>mem'. write_user_data env contents size_arg nmemb mem = Inr (size_arg * nmemb, mem')
         \<and> size_ud mem' = size_ud mem + size_arg * nmemb
         \<and> take (size_ud mem') (memory mem') =
             take (size_ud mem) (memory mem) @ take (size_arg * nmemb) contents
         \<and> memory mem' ! size_ud mem' = CHR 0x00))
   \<and> (\<not> realloc_ok env (size_ud mem + size_arg * nmemb + 1) \<longrightarrow>
      write_user_data env contents size_arg nmemb mem =
        Inl (runtime_error ''write_user_data: realloc failed''))"
  by (auto simp: write_user_data_def Let_def nth_append)

theorem write_user_data_appends_chunk_witness:
  "realloc_ok (env_with transfer_example) (size_ud \<lparr>memory = ''hel'' @ [CHR 0x00], size_ud = 3\<rparr> + 1 * 2 + 1)
   \<and> write_user_data (env_with transfer_example) ''lo'' 1 2 \<lparr>memory = ''hel'' @ [CHR 0x00], size_ud = 3\<rparr>
       = Inr (2, \<lparr>memory = ''hello'' @ [CHR 0x00], size_ud = 5\<rparr>)
   \<and> \<not> realloc_ok ((env_with transfer_example)\<lparr>realloc_ok := (\<lambda>n. n < 4)\<rparr>)
         (size_ud \<lparr>memory = ''hel'' @ [CHR 0x00], size_ud = 3\<rparr> + 1 * 2 + 1)
   \<and> write_user_data ((env_with transfer_example)\<lparr>realloc_ok := (\<lambda>n. n < 4)\<rparr>) ''lo'' 1 2
         \<lparr>memory = ''hel'' @ [CHR 0x00], size_ud = 3\<rparr>
       = Inl (runtime_error ''write_user_data: realloc failed'')"
  using write_user_data_appends_chunk [of "env_with transfer_example"
      "\<lparr>memory = ''hel'' @ [CHR 0x00], size_ud = 3\<rparr>" 1 2 "''lo''"]
    write_user_data_appends_chunk [of "(env_with transfer_example)\<lparr>realloc_ok := (\<lambda>n. n < 4)\<rparr>"
      "\<lparr>memory = ''hel'' @ [CHR 0x00], size_ud = 3\<rparr>" 1 2 "''lo''"]
  by (simp add: env_with_def write_user_data_def)

text \<open>
  Property X3. Every public operation of url.cxx follows redirects, fails on HTTP errors,
  sends the fixed user agent and registers the two callbacks; \<^verbatim>\<open>head\<close> suppresses the body,
  \<^verbatim>\<open>post\<close> runs its transfer with its payload or with its form, one part for each field,
  and \<^verbatim>\<open>put\<close>, \<^verbatim>\<open>patch\<close> and \<^verbatim>\<open>del\<close> set their method name; for a body that is not empty they
  set the payload pointer to a string that is destroyed before the transfer starts. Every
  operation is \<^verbatim>\<open>request\<close> run on the context it has configured, followed by the release
  of the operation's local objects.
\<close>

theorem request_configuration:
  "transfer_handle env ctx c CURLOPT_FOLLOWLOCATION = Some (Long 1)
   \<and> transfer_handle env ctx c CURLOPT_FAILONERROR = Some (Long 1)
   \<and> transfer_handle env ctx c CURLOPT_USERAGENT = Some (Str ''libcurl-agent/1.0'')
   \<and> transfer_handle env ctx c CURLOPT_WRITEFUNCTION = Some (Callback write_user_data_fn)
   \<and> transfer_handle env ctx c CURLOPT_HEADERFUNCTION = Some (Callback header_callback_fn)
   \<and> transfer_handle env ctx (Head u hs) CURLOPT_NOBODY = Some (Long 1)
   \<and> transfer_handle env ctx (Post u b hs) CURLOPT_POSTFIELDS = Some (Postfields (c_str b))
   \<and> transfer_handle env ctx (Post_form u f hs) CURLOPT_MIMEPOST =
        Some (Mime (map (\<lambda>field. (c_str (fst field), c_str (snd field))) f))
   \<and> transfer_handle env ctx (Put u b hs) CURLOPT_CUSTOMREQUEST = Some (Str ''PUT'')
   \<and> transfer_handle env ctx (Patch u b hs) CURLOPT_CUSTOMREQUEST = Some (Str ''PATCH'')
   \<and> transfer_handle env ctx (Del u b hs) CURLOPT_CUSTOMREQUEST = Some (Str ''DELETE'')
   \<and> (b \<noteq> [] \<longrightarrow>
        transfer_handle env ctx (Put u b hs) CURLOPT_POSTFIELDS = Some Postfields_dangling
        \<and> transfer_handle env ctx (Patch u b hs) CURLOPT_POSTFIELDS = Some Postfields_dangling
        \<and> transfer_handle env ctx (Del u b hs) CURLOPT_POSTFIELDS = Some Postfields_dangling)
   \<and> invoke env ctx c =
       (case request env (configured env ctx c) of
          Inl e \<Rightarrow> Inl e
        | Inr (r, ctx') \<Rightarrow> Inr (r, ctx'\<lparr>curl := after_return c (curl ctx')\<rparr>))"
proof -
  have k1: "transfer_handle env ctx c CURLOPT_FOLLOWLOCATION = Some (Long 1)
   \<and> transfer_handle env ctx c CURLOPT_FAILONERROR = Some (Long 1)
   \<and> transfer_handle env ctx c CURLOPT_USERAGENT = Some (Str ''libcurl-agent/1.0'')
   \<and> transfer_handle env ctx c CURLOPT_WRITEFUNCTION = Some (Callback write_user_data_fn)
   \<and> transfer_handle env ctx c CURLOPT_HEADERFUNCTION = Some (Callback header_callback_fn)"
    by (cases c) (simp_all add: config_simps)
  have k2: "transfer_handle env ctx (Head u hs) CURLOPT_NOBODY = Some (Long 1)
   \<and> transfer_handle env ctx (Post u b hs) CURLOPT_POSTFIELDS = Some (Postfields (c_str b))
   \<and> transfer_handle env ctx (Post_form u f hs) CURLOPT_MIMEPOST =
        Some (Mime (map (\<lambda>field. (c_str (fst field), c_str (snd field))) f))
   \<and> transfer_handle env ctx (Put u b hs) CURLOPT_CUSTOMREQUEST = Some (Str ''PUT'')
   \<and> transfer_handle env ctx (Patch u b hs) CURLOPT_CUSTOMREQUEST = Some (Str ''PATCH'')
   \<and> transfer_handle env ctx (Del u b hs) CURLOPT_CUSTOMREQUEST = Some (Str ''DELETE'')
   \<and> (b \<noteq> [] \<longrightarrow>
        transfer_handle env ctx (Put u b hs) CURLOPT_POSTFIELDS = Some Postfields_dangling
        \<and> transfer_handle env ctx (Patch u b hs) CURLOPT_POSTFIELDS = Some Postfields_dangling
        \<and> transfer_handle env ctx (Del u b hs) CURLOPT_POSTFIELDS = Some Postfields_dangling)"
    by (simp add: config_simps)
  from k1 k2 invoke_eq [of env ctx c] show ?thesis
    by (simp del: invoke.simps configured.simps)
qed

theorem request_configuration_witness:
  "''{}'' \<noteq> []
   \<and> transfer_handle (env_with transfer_example) fresh_context (Put ''example.com/a'' ''{}'' [])
        CURLOPT_POSTFIELDS = Some Postfields_dangling
   \<and> transfer_handle (env_with transfer_example) fresh_context (Patch ''example.com/a'' ''{}'' [])
        CURLOPT_POSTFIELDS = Some Postfields_dangling
   \<and> transfer_handle (env_with transfer_example) fresh_context (Del ''example.com/a'' ''{}'' [])
        CURLOPT_POSTFIELDS = Some Postfields_dangling
   \<and> transfer_handle (env_with transfer_example) fresh_context
        (Post_form ''example.com/login'' [(''username'', ''dopey''), (''password'', ''qwerty'')] [])
        CURLOPT_MIMEPOST = Some (Mime [(''username'', ''dopey''), (''password'', ''qwerty'')])"
  using request_configuration [where env = "env_with transfer_example" and ctx = fresh_context
      and u = "''example.com/a''" and hs = "[]" and b = "''{}''"]
    request_configuration [where env = "env_with transfer_example" and ctx = fresh_context
      and u = "''example.com/login''" and hs = "[]"
      and f = "[(''username'', ''dopey''), (''password'', ''qwerty'')]"]
  by (simp add: c_str_def)

end
